theory Spec2Isabelle
  imports Main "HOL-Library.Sublist" "HOL-Library.Word"
begin

section \<open>Python values\<close>

text \<open>
  A Python \<open>str\<close> is a sequence of Unicode code points, so it is modelled as a list of
  natural numbers (one number per code point) and not as a list of 8-bit characters:
  \<open>str.strip()\<close> removes Unicode whitespace such as U+2003, and the bot's replies contain
  emoji. \<open>str ''abc''\<close> is the ASCII literal \<open>"abc"\<close>.
\<close>

type_synonym pystr = "nat list"

abbreviation str :: "string \<Rightarrow> pystr" where
  "str s \<equiv> map of_char s"

type_synonym bytes = "8 word list"

text \<open>The code points for which \<open>str.isspace()\<close> holds (CPython's whitespace table).\<close>

definition py_isspace :: "nat \<Rightarrow> bool" where
  "py_isspace c \<longleftrightarrow>
     (9 \<le> c \<and> c \<le> 13) \<or> (28 \<le> c \<and> c \<le> 32) \<or> c = 133 \<or> c = 160 \<or> c = 5760 \<or>
     (8192 \<le> c \<and> c \<le> 8202) \<or> c = 8232 \<or> c = 8233 \<or> c = 8239 \<or> c = 8287 \<or> c = 12288"

text \<open>
  \<open>s.strip()\<close> and \<open>s.strip(chars)\<close>: drop the matching code points at the left end, then
  at the right end of what is left.
\<close>

definition strip_where :: "(nat \<Rightarrow> bool) \<Rightarrow> pystr \<Rightarrow> pystr" where
  "strip_where P s = rev (dropWhile P (rev (dropWhile P s)))"

definition py_strip :: "pystr \<Rightarrow> pystr" where
  "py_strip s = strip_where py_isspace s"

definition py_strip_chars :: "pystr \<Rightarrow> pystr \<Rightarrow> pystr" where
  "py_strip_chars chars s = strip_where (\<lambda>c. c \<in> set chars) s"

definition startswith :: "pystr \<Rightarrow> pystr \<Rightarrow> bool" where
  "startswith s p \<longleftrightarrow> prefix p s"

definition endswith :: "pystr \<Rightarrow> pystr \<Rightarrow> bool" where
  "endswith s p \<longleftrightarrow> suffix p s"

text \<open>\<open>s.replace(old, new, 1)\<close>: only the leftmost occurrence of \<open>old\<close> is replaced.\<close>

fun replace_first :: "pystr \<Rightarrow> pystr \<Rightarrow> pystr \<Rightarrow> pystr" where
  "replace_first old new [] = (if old = [] then new else [])"
| "replace_first old new (c # cs) =
     (if prefix old (c # cs) then new @ drop (length old) (c # cs)
      else c # replace_first old new cs)"

text \<open>\<open>sep.join(xs)\<close>.\<close>

fun py_join :: "pystr \<Rightarrow> pystr list \<Rightarrow> pystr" where
  "py_join sep [] = []"
| "py_join sep [x] = x"
| "py_join sep (x # y # zs) = x @ sep @ py_join sep (y # zs)"

text \<open>
  A Python \<open>float\<close> is an IEEE double; the programs never compute with one, they only pass
  decoded JSON along.
\<close>

datatype pyfloat = Finite bool nat int | Infinity bool | NaN

text \<open>
  What \<open>json.loads\<close> returns and \<open>json.dump\<close> accepts. A \<open>dict\<close> keeps its insertion
  order, so an object is an association list.
\<close>

datatype json =
    JNull
  | JBool bool
  | JInt int
  | JFloat pyfloat
  | JStr pystr
  | JArr "json list"
  | JObj "(pystr \<times> json) list"

text \<open>Exceptions are values: the class and the message that \<open>str(e)\<close> gives.\<close>

datatype exn_class =
    JSONDecodeError
  | UnicodeDecodeError
  | AttributeError
  | TypeError
  | IndexError
  | LibraryError

datatype pyexn = PyExn (exn_class: exn_class) (exn_msg: pystr)

text \<open>The message of an AttributeError; code point 39 is the single quote.\<close>

definition no_attribute :: "pystr \<Rightarrow> pystr \<Rightarrow> pystr" where
  "no_attribute type_name attr =
     [39] @ type_name @ [39] @ str '' object has no attribute '' @ [39] @ attr @ [39]"

section \<open>server.py\<close>

text \<open>
  The collaborators of the resume service, which are not part of the repository:
  \<^item> \<open>py_lower\<close> is \<open>str.lower\<close> (the Unicode case mapping of the runtime);
  \<^item> \<open>pdf_open\<close> is \<open>pdfplumber.open\<close> followed by \<open>page.extract_text()\<close> on each page:
    it raises, or gives one optional text per page (\<open>None\<close> for a page without text);
  \<^item> \<open>docx_open\<close> is \<open>Document(...)\<close> and the texts of \<open>doc.paragraphs\<close>;
  \<^item> \<open>image_ocr\<close> is \<open>Image.open\<close> followed by \<open>pytesseract.image_to_string\<close>;
  \<^item> \<open>generate_content\<close> is the Gemini call, giving \<open>response.text\<close> (possibly \<open>None\<close>);
  \<^item> \<open>json_loads\<close> is \<open>json.loads\<close>.
\<close>

record server_env =
  py_lower :: "pystr \<Rightarrow> pystr"
  pdf_open :: "bytes \<Rightarrow> pyexn + pystr option list"
  docx_open :: "bytes \<Rightarrow> pyexn + pystr list"
  image_ocr :: "bytes \<Rightarrow> pyexn + pystr"
  generate_content :: "pystr list \<Rightarrow> pyexn + pystr option"
  json_loads :: "pystr \<Rightarrow> pyexn + json"

record file_storage =
  fs_filename :: pystr
  fs_bytes :: bytes

definition extract_text_from_pdf :: "server_env \<Rightarrow> bytes \<Rightarrow> pyexn + pystr" where
  "extract_text_from_pdf env file_bytes =
     (case pdf_open env file_bytes of
        Inl e \<Rightarrow> Inl e
      | Inr pages \<Rightarrow>
          Inr (py_strip (py_join [10]
                 (map (\<lambda>page_text. case page_text of None \<Rightarrow> [] | Some t \<Rightarrow> t) pages))))"

definition extract_text_from_docx :: "server_env \<Rightarrow> bytes \<Rightarrow> pyexn + pystr" where
  "extract_text_from_docx env file_bytes =
     (case docx_open env file_bytes of
        Inl e \<Rightarrow> Inl e
      | Inr paragraphs \<Rightarrow> Inr (py_strip (py_join [10] paragraphs)))"

definition extract_text_from_image :: "server_env \<Rightarrow> bytes \<Rightarrow> pyexn + pystr" where
  "extract_text_from_image env file_bytes =
     (case image_ocr env file_bytes of
        Inl e \<Rightarrow> Inl e
      | Inr t \<Rightarrow> Inr (py_strip t))"

definition extract_text :: "server_env \<Rightarrow> file_storage \<Rightarrow> pyexn + pystr" where
  "extract_text env file_storage =
     (let filename = py_lower env (fs_filename file_storage);
          file_bytes = fs_bytes file_storage
      in if endswith filename (str ''.pdf'') then extract_text_from_pdf env file_bytes
         else if endswith filename (str ''.docx'') then extract_text_from_docx env file_bytes
         else if endswith filename (str ''.png'') \<or> endswith filename (str ''.jpg'')
                 \<or> endswith filename (str ''.jpeg'')
           then extract_text_from_image env file_bytes
         else extract_text_from_pdf env file_bytes)"

text \<open>The three prompt parts of \<open>parse_resume_with_gemini\<close>; code point 10 is the newline.\<close>

definition system_prompt :: pystr where
  "system_prompt =
     [10] @ str ''You are an expert resume parser.'' @ [10] @
     str ''Extract structured data and return ONLY valid JSON.'' @ [10]"

definition schema_prompt :: pystr where
  \<open>schema_prompt =
     [10] @ str ''Use this JSON format:'' @ [10] @ [10] @
     str ''{'' @ [10] @
     str ''  "name": "string or null",'' @ [10] @
     str ''  "email": "string or null",'' @ [10] @
     str ''  "phone": "string or null",'' @ [10] @
     str ''  "location": "string or null",'' @ [10] @
     str ''  "summary": "string or null",'' @ [10] @
     str ''  "skills": [],'' @ [10] @
     str ''  "experience": [],'' @ [10] @
     str ''  "education": [],'' @ [10] @
     str ''  "projects": [],'' @ [10] @
     str ''  "social_links": {'' @ [10] @
     str ''    "linkedin": null,'' @ [10] @
     str ''    "github": null,'' @ [10] @
     str ''    "portfolio": null'' @ [10] @
     str ''  },'' @ [10] @
     str ''  "certifications": [],'' @ [10] @
     str ''  "extras": {'' @ [10] @
     str ''    "raw_text_excerpt": "string or null"'' @ [10] @
     str ''  }'' @ [10] @
     str ''}'' @ [10]\<close>

definition user_prompt :: "pystr \<Rightarrow> pystr" where
  \<open>user_prompt raw_text =
     [10] @ str ''Here is the resume text:'' @ [10] @ [10] @
     str ''"""'' @ raw_text @ str ''"""'' @ [10] @ [10] @
     str ''Return ONLY JSON. '' @ [10] @
     str ''Fill extras.raw_text_excerpt with a short excerpt.'' @ [10]\<close>

text \<open>
  Lines 132 to 137: trim the model's text and, when it starts with a fence, strip
  backticks from both ends, delete the leftmost \<open>json\<close> and trim again.
\<close>

definition clean_raw_output :: "pystr \<Rightarrow> pystr" where
  "clean_raw_output response_text =
     (let raw_output = py_strip response_text
      in if startswith raw_output (str ''```'')
         then py_strip (replace_first (str ''json'') [] (py_strip_chars (str ''`'') raw_output))
         else raw_output)"

text \<open>
  Lines 132 to 145, on a model output that is a string: the bare \<open>except:\<close> turns every
  exception of \<open>json.loads\<close> into the error record.
\<close>

definition normalize_resume_json :: "server_env \<Rightarrow> pystr \<Rightarrow> json" where
  "normalize_resume_json env response_text =
     (let raw_output = clean_raw_output response_text
      in case json_loads env raw_output of
           Inr parsed \<Rightarrow> parsed
         | Inl e \<Rightarrow>
             JObj [(str ''error'', JStr (str ''JSON parsing failed'')),
                   (str ''raw_output'', JStr raw_output)])"

definition parse_resume_with_gemini :: "server_env \<Rightarrow> pystr \<Rightarrow> pyexn + json" where
  "parse_resume_with_gemini env raw_text =
     (case generate_content env [system_prompt, schema_prompt, user_prompt raw_text] of
        Inl e \<Rightarrow> Inl e
      | Inr None \<Rightarrow>
          Inl (PyExn AttributeError (no_attribute (str ''NoneType'') (str ''strip'')))
      | Inr (Some response_text) \<Rightarrow> Inr (normalize_resume_json env response_text))"

text \<open>
  The route \<open>POST /extract-resume\<close>. \<open>request.files\<close> maps a form field to the uploaded
  file; the result is the JSON body and the status code. \<open>except Exception as e\<close> turns
  every exception raised between the two \<open>try\<close> lines into the 500 envelope.
\<close>

definition error_body :: "pystr \<Rightarrow> json" where
  "error_body message = JObj [(str ''error'', JStr message)]"

definition server_error :: "pyexn \<Rightarrow> json \<times> nat" where
  "server_error e =
     (JObj [(str ''error'', JStr (str ''Server error'')), (str ''details'', JStr (exn_msg e))], 500)"

definition extract_resume :: "server_env \<Rightarrow> (pystr \<rightharpoonup> file_storage) \<Rightarrow> json \<times> nat" where
  "extract_resume env request_files =
     (case request_files (str ''file'') of
        None \<Rightarrow> (error_body (str ''No file in request''), 400)
      | Some file \<Rightarrow>
          if fs_filename file = [] then (error_body (str ''No selected file''), 400)
          else
            (case extract_text env file of
               Inl e \<Rightarrow> server_error e
             | Inr raw_text \<Rightarrow>
                 if py_strip raw_text = [] then (error_body (str ''Could not extract text''), 400)
                 else
                   (case parse_resume_with_gemini env raw_text of
                      Inl e \<Rightarrow> server_error e
                    | Inr parsed \<Rightarrow> (parsed, 200))))"

section \<open>telegram_bot.py\<close>

subsection \<open>Collaborators and state\<close>

text \<open>The Gemini response, as far as the bot reads it; every attribute may be \<open>None\<close>.\<close>

datatype part = Part (part_text: "pystr option")

datatype content = Content (content_parts: "part list option")

datatype candidate = Candidate (cand_content: "content option")

datatype response =
  Response (resp_text: "pystr option") (resp_parts: "part list option")
           (resp_candidates: "candidate list option")

record datetime =
  dt_year :: nat
  dt_month :: nat
  dt_day :: nat
  dt_hour :: nat
  dt_minute :: nat
  dt_second :: nat
  dt_microsecond :: nat

text \<open>
  The collaborators of the bot:
  \<^item> \<open>json_load\<close> is \<open>json.load\<close> on the text of a file, \<open>json_dumps\<close> is
    \<open>json.dumps(\<dots>, indent=4, ensure_ascii=False)\<close> (what \<open>json.dump\<close> writes);
  \<^item> \<open>format_value\<close> is the text an f-string gives for a decoded JSON value;
  \<^item> \<open>lower\<close> is \<open>str.lower\<close>;
  \<^item> \<open>send_message\<close> is a fresh chat session and its \<open>send_message\<close>;
    \<open>generate_with_image\<close> is \<open>generate_content\<close> on an image part and a prompt;
  \<^item> \<open>download_to_memory\<close> fetches the bytes of a photo given by its file id;
  \<^item> \<open>reply_text\<close> is the transport: it delivers the text or raises;
  \<^item> \<open>clock n\<close> is what the \<open>n\<close>-th call of \<open>datetime.now()\<close> returns.
\<close>

record bot_env =
  json_load :: "pystr \<Rightarrow> pyexn + json"
  json_dumps :: "json \<Rightarrow> pystr"
  format_value :: "json \<Rightarrow> pystr"
  lower :: "pystr \<Rightarrow> pystr"
  send_message :: "pystr \<Rightarrow> pyexn + response"
  generate_with_image :: "bytes \<Rightarrow> pystr \<Rightarrow> pyexn + response"
  download_to_memory :: "pystr \<Rightarrow> pyexn + bytes"
  reply_text :: "pystr \<Rightarrow> pyexn option"
  clock :: "nat \<Rightarrow> datetime"

text \<open>
  The state the handlers act on: the text files of the working directory by path, the
  arguments of the calls of \<open>update.message.reply_text\<close> so far, and the number of clock
  readings taken.
\<close>

record world =
  files :: "pystr \<rightharpoonup> pystr"
  replied :: "pystr list"
  clock_reads :: nat

record update =
  from_user_id :: int
  msg_text :: pystr
  msg_caption :: "pystr option"
  msg_photo :: "pystr list"

text \<open>A handler returns normally or raises; the state it leaves behind is kept either way.\<close>

datatype outcome = Done | Raised pyexn

definition and_then ::
  "outcome \<times> world \<Rightarrow> (world \<Rightarrow> outcome \<times> world) \<Rightarrow> outcome \<times> world" where
  "and_then r k = (case r of (Done, w) \<Rightarrow> k w | (Raised e, w) \<Rightarrow> (Raised e, w))"

definition reply :: "bot_env \<Rightarrow> pystr \<Rightarrow> world \<Rightarrow> outcome \<times> world" where
  "reply env t w =
     (let w1 = w\<lparr>replied := replied w @ [t]\<rparr>
      in case reply_text env t of None \<Rightarrow> (Done, w1) | Some e \<Rightarrow> (Raised e, w1))"

subsection \<open>Formatting\<close>

function digits :: "nat \<Rightarrow> pystr" where
  "digits n = (if n < 10 then [48 + n] else digits (n div 10) @ [48 + n mod 10])"
  by pat_completeness auto
termination
  by (relation "measure id") auto

declare digits.simps [simp del]

definition str_of_int :: "int \<Rightarrow> pystr" where
  "str_of_int i = (if i < 0 then str ''-'' @ digits (nat (- i)) else digits (nat i))"

definition zero_pad :: "nat \<Rightarrow> nat \<Rightarrow> pystr" where
  "zero_pad width n = replicate (width - length (digits n)) 48 @ digits n"

text \<open>\<open>strftime("%Y-%m-%d %H:%M:%S")\<close>; the year is at least 1000 on every clock.\<close>

definition strftime :: "datetime \<Rightarrow> pystr" where
  "strftime dt =
     zero_pad 4 (dt_year dt) @ str ''-'' @ zero_pad 2 (dt_month dt) @ str ''-'' @
     zero_pad 2 (dt_day dt) @ str '' '' @ zero_pad 2 (dt_hour dt) @ str '':'' @
     zero_pad 2 (dt_minute dt) @ str '':'' @ zero_pad 2 (dt_second dt)"

fun type_name :: "json \<Rightarrow> pystr" where
  "type_name JNull = str ''NoneType''"
| "type_name (JBool b) = str ''bool''"
| "type_name (JInt i) = str ''int''"
| "type_name (JFloat f) = str ''float''"
| "type_name (JStr s) = str ''str''"
| "type_name (JArr xs) = str ''list''"
| "type_name (JObj kvs) = str ''dict''"

definition not_iterable :: pyexn where
  "not_iterable = PyExn TypeError ([39] @ str ''NoneType'' @ [39] @ str '' object is not iterable'')"

subsection \<open>Per-user paths, memory and history\<close>

definition user_memory_path :: "int \<Rightarrow> pystr" where
  "user_memory_path user_id = str ''memory_'' @ str_of_int user_id @ str ''.json''"

definition user_history_path :: "int \<Rightarrow> pystr" where
  "user_history_path user_id = str ''history_'' @ str_of_int user_id @ str ''.json''"

definition load_memory :: "bot_env \<Rightarrow> int \<Rightarrow> world \<Rightarrow> pyexn + json" where
  "load_memory env user_id w =
     (case files w (user_memory_path user_id) of
        Some f \<Rightarrow> json_load env f
      | None \<Rightarrow> Inr (JObj []))"

definition save_memory :: "bot_env \<Rightarrow> int \<Rightarrow> json \<Rightarrow> world \<Rightarrow> world" where
  "save_memory env user_id memory w =
     w\<lparr>files := (files w)(user_memory_path user_id \<mapsto> json_dumps env memory)\<rparr>"

text \<open>The \<open>entry\<close> dictionary of \<open>save_history\<close>.\<close>

abbreviation history_entry :: "pystr \<Rightarrow> pystr \<Rightarrow> pystr \<Rightarrow> json" where
  "history_entry timestamp sender message \<equiv>
     JObj [(str ''timestamp'', JStr timestamp),
           (str ''sender'', JStr sender),
           (str ''message'', JStr message)]"

text \<open>
  \<open>save_history\<close>: the clock is read first; only a \<open>JSONDecodeError\<close> of \<open>json.load\<close> is
  caught; \<open>history.append\<close> needs a list.
\<close>

definition save_history ::
  "bot_env \<Rightarrow> int \<Rightarrow> pystr \<Rightarrow> pystr \<Rightarrow> world \<Rightarrow> outcome \<times> world" where
  "save_history env user_id sender message w =
     (let entry = history_entry (strftime (clock env (clock_reads w))) sender message;
          w1 = w\<lparr>clock_reads := Suc (clock_reads w)\<rparr>;
          path = user_history_path user_id;
          loaded =
            (case files w1 path of
               None \<Rightarrow> Inr (JArr [])
             | Some f \<Rightarrow>
                 (case json_load env f of
                    Inr history \<Rightarrow> Inr history
                  | Inl e \<Rightarrow> if exn_class e = JSONDecodeError then Inr (JArr []) else Inl e))
      in case loaded of
           Inl e \<Rightarrow> (Raised e, w1)
         | Inr (JArr history) \<Rightarrow>
             (Done, w1\<lparr>files := (files w1)(path \<mapsto> json_dumps env (JArr (history @ [entry])))\<rparr>)
         | Inr other \<Rightarrow>
             (Raised (PyExn AttributeError (no_attribute (type_name other) (str ''append''))), w1))"

subsection \<open>Commands\<close>

definition stop :: "bot_env \<Rightarrow> update \<Rightarrow> world \<Rightarrow> outcome \<times> world" where
  "stop env upd w = reply env (str ''Chat stopped. Goodbye! '' @ [128075]) w"

definition clear :: "bot_env \<Rightarrow> update \<Rightarrow> world \<Rightarrow> outcome \<times> world" where
  "clear env upd w =
     reply env ([129529] @ str '' Chat history cleared!'')
       (w\<lparr>files := (files w)(user_history_path (from_user_id upd) \<mapsto> str ''[]'')\<rparr>)"

definition memory_cmd :: "bot_env \<Rightarrow> update \<Rightarrow> world \<Rightarrow> outcome \<times> world" where
  "memory_cmd env upd w =
     (case load_memory env (from_user_id upd) w of
        Inl e \<Rightarrow> (Raised e, w)
      | Inr memory \<Rightarrow>
          reply env ([129504] @ str '' Memory:'' @ [10] @ json_dumps env memory) w)"

text \<open>\<open>memory[key] = value\<close>: an existing key keeps its place, a new one goes last.\<close>

fun dict_set :: "(pystr \<times> json) list \<Rightarrow> pystr \<Rightarrow> json \<Rightarrow> (pystr \<times> json) list" where
  "dict_set [] key v = [(key, v)]"
| "dict_set ((k, x) # kvs) key v =
     (if k = key then (key, v) # kvs else (k, x) # dict_set kvs key v)"

definition setitem_error :: "json \<Rightarrow> pyexn" where
  "setitem_error memory =
     PyExn TypeError
       (case memory of
          JArr xs \<Rightarrow> str ''list indices must be integers or slices, not str''
        | other \<Rightarrow>
            [39] @ type_name other @ [39] @ str '' object does not support item assignment'')"

text \<open>Code point 61 is \<open>=\<close>; \<open>cmd.split("=", 1)\<close> cuts at the leftmost one.\<close>

definition remember :: "bot_env \<Rightarrow> update \<Rightarrow> world \<Rightarrow> outcome \<times> world" where
  "remember env upd w =
     (let user_id = from_user_id upd;
          cmd = replace_first (str ''/remember '') [] (msg_text upd)
      in if 61 \<notin> set cmd then reply env (str ''Use format: /remember key=value'') w
         else
           (let key = py_strip (takeWhile (\<lambda>c. c \<noteq> 61) cmd);
                val = py_strip (tl (dropWhile (\<lambda>c. c \<noteq> 61) cmd))
            in case load_memory env user_id w of
                 Inl e \<Rightarrow> (Raised e, w)
               | Inr (JObj memory) \<Rightarrow>
                   reply env ([10004] @ str '' Remembered: '' @ key @ str '' = '' @ val)
                     (save_memory env user_id (JObj (dict_set memory key (JStr val))) w)
               | Inr other \<Rightarrow> (Raised (setitem_error other), w)))"

subsection \<open>Chat and photo handlers\<close>

text \<open>\<open>memory.items()\<close> and the lines \<open>key: value\<close> of the memory block.\<close>

definition memory_items :: "json \<Rightarrow> pyexn + (pystr \<times> json) list" where
  "memory_items memory =
     (case memory of
        JObj kvs \<Rightarrow> Inr kvs
      | other \<Rightarrow> Inl (PyExn AttributeError (no_attribute (type_name other) (str ''items''))))"

definition memory_text :: "bot_env \<Rightarrow> (pystr \<times> json) list \<Rightarrow> pystr" where
  "memory_text env kvs =
     py_join [10] (map (\<lambda>(k, v). k @ str '': '' @ format_value env v) kvs)"

definition memory_block :: "bot_env \<Rightarrow> (pystr \<times> json) list \<Rightarrow> pystr" where
  "memory_block env kvs = [10, 10] @ str ''(Memory:'' @ [10] @ memory_text env kvs @ str '')''"

text \<open>The loop \<open>for part in parts: if part.text: ai_text += part.text\<close>.\<close>

fun add_part_texts :: "pystr \<Rightarrow> part list \<Rightarrow> pystr" where
  "add_part_texts ai_text [] = ai_text"
| "add_part_texts ai_text (p # ps) =
     (case part_text p of
        None \<Rightarrow> add_part_texts ai_text ps
      | Some t \<Rightarrow> if t = [] then add_part_texts ai_text ps else add_part_texts (ai_text @ t) ps)"

definition chat :: "bot_env \<Rightarrow> update \<Rightarrow> world \<Rightarrow> outcome \<times> world" where
  "chat env upd w =
     (let user_id = from_user_id upd;
          user_msg = msg_text upd
      in if lower env user_msg = str ''/stop'' then stop env upd w
         else
           (case load_memory env user_id w of
              Inl e \<Rightarrow> (Raised e, w)
            | Inr memory \<Rightarrow>
                (case memory_items memory of
                   Inl e \<Rightarrow> (Raised e, w)
                 | Inr kvs \<Rightarrow>
                     (case send_message env (user_msg @ memory_block env kvs) of
                        Inl e \<Rightarrow> (Raised e, w)
                      | Inr r \<Rightarrow>
                          (case resp_parts r of
                             None \<Rightarrow> (Raised not_iterable, w)
                           | Some parts \<Rightarrow>
                               (let ai_text = add_part_texts [] parts
                                in and_then (reply env ai_text w) (\<lambda>w1.
                                   and_then (save_history env user_id (str ''You'') user_msg w1)
                                     (save_history env user_id (str ''AI'') ai_text))))))))"

text \<open>
  The fallback of \<open>handle_photo\<close>: the two nested loops over \<open>response.candidates\<close> and
  \<open>cand.content.parts\<close>, which raise on a \<open>None\<close>.
\<close>

fun add_candidate_texts :: "pystr \<Rightarrow> candidate list \<Rightarrow> pyexn + pystr" where
  "add_candidate_texts ai_text [] = Inr ai_text"
| "add_candidate_texts ai_text (cand # cands) =
     (case cand_content cand of
        None \<Rightarrow> Inl (PyExn AttributeError (no_attribute (str ''NoneType'') (str ''parts'')))
      | Some c \<Rightarrow>
          (case content_parts c of
             None \<Rightarrow> Inl not_iterable
           | Some parts \<Rightarrow> add_candidate_texts (add_part_texts ai_text parts) cands))"

definition apology :: pystr where
  "apology = str ''I couldn'' @ [39] @ str ''t understand this image properly, sorry.''"

text \<open>Lines 209 to 219: the text that \<open>handle_photo\<close> passes to \<open>reply_text\<close>.\<close>

definition photo_ai_text :: "response \<Rightarrow> pystr" where
  "photo_ai_text r =
     (let ai_text = (case resp_text r of None \<Rightarrow> [] | Some t \<Rightarrow> t)
      in if ai_text = []
         then (case (case resp_candidates r of
                       None \<Rightarrow> Inl not_iterable
                     | Some cands \<Rightarrow> add_candidate_texts ai_text cands) of
                 Inl e \<Rightarrow> apology
               | Inr t \<Rightarrow> t)
         else ai_text)"

text \<open>Lines 180 to 183: the prompt sent along with the photo.\<close>

definition photo_prompt :: "bot_env \<Rightarrow> pystr \<Rightarrow> (pystr \<times> json) list \<Rightarrow> pystr" where
  "photo_prompt env caption kvs =
     (if py_strip caption \<noteq> [] then caption @ memory_block env kvs
      else str ''Describe this image in detail.'' @ memory_block env kvs)"

definition handle_photo :: "bot_env \<Rightarrow> update \<Rightarrow> world \<Rightarrow> outcome \<times> world" where
  "handle_photo env upd w =
     (let user_id = from_user_id upd;
          caption = (case msg_caption upd of None \<Rightarrow> [] | Some c \<Rightarrow> c)
      in case load_memory env user_id w of
           Inl e \<Rightarrow> (Raised e, w)
         | Inr memory \<Rightarrow>
             (case memory_items memory of
                Inl e \<Rightarrow> (Raised e, w)
              | Inr kvs \<Rightarrow>
                  (let prompt = photo_prompt env caption kvs
                   in if msg_photo upd = []
                      then (Raised (PyExn IndexError (str ''tuple index out of range'')), w)
                      else
                        (case download_to_memory env (last (msg_photo upd)) of
                           Inl e \<Rightarrow> (Raised e, w)
                         | Inr image_bytes \<Rightarrow>
                             (case generate_with_image env image_bytes prompt of
                                Inl e \<Rightarrow> (Raised e, w)
                              | Inr r \<Rightarrow>
                                  (let ai_text = photo_ai_text r
                                   in and_then (reply env ai_text w) (\<lambda>w1.
                                      and_then
                                        (save_history env user_id (str ''You (image)'')
                                           (if caption = [] then str ''[Image]'' else caption) w1)
                                        (save_history env user_id (str ''AI'') ai_text))))))))"

section \<open>The json library on objects of strings\<close>

text \<open>
  Modelled from the Python standard library, which is not part of the repository:
  \<open>json.dumps(m, indent=4, ensure_ascii=False)\<close> for a \<open>dict\<close> from \<open>str\<close> to \<open>str\<close>, and
  \<open>json.loads\<close> on the text of an object whose values are strings. The memory file of
  a user holds such an object.

  With \<open>ensure_ascii=False\<close> only the quote, the backslash and the control characters
  below U+0020 are escaped, the latter as \<open>\b \f \n \r \t\<close> or as \<open>\u00XX\<close> with
  lower-case hexadecimal digits.
\<close>

definition hex_digit :: "nat \<Rightarrow> nat" where
  "hex_digit d = (if d < 10 then 48 + d else 87 + d)"

definition escape_char :: "nat \<Rightarrow> pystr" where
  "escape_char c =
     (if c = 34 then [92, 34]
      else if c = 92 then [92, 92]
      else if c = 10 then [92, 110]
      else if c = 13 then [92, 114]
      else if c = 9 then [92, 116]
      else if c = 8 then [92, 98]
      else if c = 12 then [92, 102]
      else if c < 32 then [92, 117, 48, 48, hex_digit (c div 16), hex_digit (c mod 16)]
      else [c])"

definition encode_basestring :: "pystr \<Rightarrow> pystr" where
  "encode_basestring s = [34] @ concat (map escape_char s) @ [34]"

text \<open>
  An empty \<open>dict\<close> is written as \<open>{}\<close>; otherwise every item goes on a line of its own,
  indented by four spaces, as \<open>"key": "value"\<close>, with a comma after all but the last.
\<close>

definition member_text :: "pystr \<times> pystr \<Rightarrow> pystr" where
  "member_text kv = encode_basestring (fst kv) @ str '': '' @ encode_basestring (snd kv)"

definition dumps_object :: "(pystr \<times> pystr) list \<Rightarrow> pystr" where
  "dumps_object kvs =
     (if kvs = [] then str ''{}''
      else str ''{'' @ [10] @ str ''    '' @
           py_join (str '','' @ [10] @ str ''    '') (map member_text kvs) @
           [10] @ str ''}'')"

text \<open>
  The decoder. \<open>scanstring\<close> reads a string from just after its opening quote and gives
  the decoded string and the rest of the input, or \<open>None\<close> where \<open>json.loads\<close> raises
  \<open>JSONDecodeError\<close>: an unterminated string, an unescaped control character, a bad
  escape. A high surrogate escape followed by a low one is one code point.
\<close>

definition hex_value :: "nat \<Rightarrow> nat option" where
  "hex_value c =
     (if 48 \<le> c \<and> c \<le> 57 then Some (c - 48)
      else if 97 \<le> c \<and> c \<le> 102 then Some (c - 87)
      else if 65 \<le> c \<and> c \<le> 70 then Some (c - 55)
      else None)"

fun hex4 :: "pystr \<Rightarrow> nat option" where
  "hex4 [a, b, c, d] =
     (case (hex_value a, hex_value b, hex_value c, hex_value d) of
        (Some x, Some y, Some z, Some u) \<Rightarrow> Some (((x * 16 + y) * 16 + z) * 16 + u)
      | other \<Rightarrow> None)"
| "hex4 other = None"

definition unescape :: "nat \<Rightarrow> nat option" where
  "unescape e =
     (if e = 34 then Some 34
      else if e = 92 then Some 92
      else if e = 47 then Some 47
      else if e = 98 then Some 8
      else if e = 102 then Some 12
      else if e = 110 then Some 10
      else if e = 114 then Some 13
      else if e = 116 then Some 9
      else None)"

definition prepend :: "nat \<Rightarrow> (pystr \<times> pystr) option \<Rightarrow> (pystr \<times> pystr) option" where
  "prepend c r = (case r of None \<Rightarrow> None | Some (s, rest) \<Rightarrow> Some (c # s, rest))"

function scanstring :: "pystr \<Rightarrow> (pystr \<times> pystr) option" where
  "scanstring [] = None"
| "scanstring (c # cs) =
     (if c = 34 then Some ([], cs)
      else if c = 92 then
        (case cs of
           [] \<Rightarrow> None
         | e # rest \<Rightarrow>
             if e = 117 then
               (case hex4 (take 4 rest) of
                  None \<Rightarrow> None
                | Some uni \<Rightarrow>
                    if 55296 \<le> uni \<and> uni \<le> 56319 \<and> take 2 (drop 4 rest) = [92, 117] then
                      (case hex4 (take 4 (drop 6 rest)) of
                         None \<Rightarrow> None
                       | Some uni2 \<Rightarrow>
                           if 56320 \<le> uni2 \<and> uni2 \<le> 57343
                           then prepend (65536 + (uni - 55296) * 1024 + (uni2 - 56320))
                                  (scanstring (drop 10 rest))
                           else prepend uni (scanstring (drop 4 rest)))
                    else prepend uni (scanstring (drop 4 rest)))
             else
               (case unescape e of
                  None \<Rightarrow> None
                | Some d \<Rightarrow> prepend d (scanstring rest)))
      else if c < 32 then None
      else prepend c (scanstring cs))"
  by pat_completeness auto
termination
  by (relation "measure length") auto

declare scanstring.simps [simp del]

text \<open>The whitespace that \<open>json.loads\<close> skips between tokens.\<close>

definition skip_ws :: "pystr \<Rightarrow> pystr" where
  "skip_ws s = dropWhile (\<lambda>c. c = 32 \<or> c = 9 \<or> c = 10 \<or> c = 13) s"

text \<open>
  The items of an object, from the opening quote of a key on: \<open>"key" : "value"\<close>, then a
  comma and the next item, or the closing brace. Each item is stored as an assignment to
  the \<open>dict\<close> built so far, so the last of two equal keys wins. The fuel is the length of
  the text, which bounds the number of items; a value that is not a string is outside
  this model and gives \<open>None\<close>.
\<close>

fun parse_members ::
  "nat \<Rightarrow> (pystr \<times> json) list \<Rightarrow> pystr \<Rightarrow> ((pystr \<times> json) list \<times> pystr) option" where
  "parse_members 0 acc s = None"
| "parse_members (Suc fuel) acc s =
     (case s of
        [] \<Rightarrow> None
      | q # s1 \<Rightarrow>
          if q \<noteq> 34 then None
          else
            (case scanstring s1 of
               None \<Rightarrow> None
             | Some (key, s2) \<Rightarrow>
                 (case skip_ws s2 of
                    [] \<Rightarrow> None
                  | colon # s3 \<Rightarrow>
                      if colon \<noteq> 58 then None
                      else
                        (case skip_ws s3 of
                           [] \<Rightarrow> None
                         | q2 # s4 \<Rightarrow>
                             if q2 \<noteq> 34 then None
                             else
                               (case scanstring s4 of
                                  None \<Rightarrow> None
                                | Some (val, s5) \<Rightarrow>
                                    (case skip_ws s5 of
                                       [] \<Rightarrow> None
                                     | d # s6 \<Rightarrow>
                                         if d = 125
                                         then Some (dict_set acc key (JStr val), s6)
                                         else if d = 44
                                         then parse_members fuel
                                                (dict_set acc key (JStr val)) (skip_ws s6)
                                         else None))))))"

declare parse_members.simps [simp del]

definition loads_object :: "pystr \<Rightarrow> (pystr \<times> json) list option" where
  "loads_object t =
     (case skip_ws t of
        [] \<Rightarrow> None
      | b # s1 \<Rightarrow>
          if b \<noteq> 123 then None
          else
            (case skip_ws s1 of
               [] \<Rightarrow> None
             | d # s2 \<Rightarrow>
                 if d = 125 then (if skip_ws s2 = [] then Some [] else None)
                 else
                   (case parse_members (length t) [] (d # s2) of
                      None \<Rightarrow> None
                    | Some (m, rest) \<Rightarrow> if skip_ws rest = [] then Some m else None)))"

section \<open>What a response and a history file hold\<close>

text \<open>
  The notions in which the properties below are stated: the texts of the text-bearing
  parts of a list of parts, in order; the parts of a candidate (\<open>None\<close> when
  \<open>cand.content\<close> or \<open>cand.content.parts\<close> is \<open>None\<close>) and their texts; and the sequence
  that a user's history file stands for, which is empty when the file is missing or is
  not valid JSON.
\<close>

definition all_part_texts :: "part list \<Rightarrow> pystr" where
  "all_part_texts parts =
     concat (map (\<lambda>p. case part_text p of None \<Rightarrow> [] | Some t \<Rightarrow> t) parts)"

definition candidate_parts :: "candidate \<Rightarrow> part list option" where
  "candidate_parts cand = (case cand_content cand of None \<Rightarrow> None | Some c \<Rightarrow> content_parts c)"

definition candidate_texts :: "candidate \<Rightarrow> pystr" where
  "candidate_texts cand =
     (case candidate_parts cand of None \<Rightarrow> [] | Some parts \<Rightarrow> all_part_texts parts)"

definition existing_history :: "bot_env \<Rightarrow> int \<Rightarrow> world \<Rightarrow> json list \<Rightarrow> bool" where
  "existing_history env user_id w history \<longleftrightarrow>
     (case files w (user_history_path user_id) of
        None \<Rightarrow> history = []
      | Some f \<Rightarrow>
          (case json_load env f of
             Inr v \<Rightarrow> v = JArr history
           | Inl e \<Rightarrow> exn_class e = JSONDecodeError \<and> history = []))"

section \<open>Concrete collaborators\<close>

text \<open>
  Small concrete collaborators, on which the definitions above can be run. \<open>ascii_lower\<close>
  is \<open>str.lower\<close> on ASCII text. The opener of each format accepts the bytes that start
  with the magic number of the format.
\<close>

definition ascii_lower :: "pystr \<Rightarrow> pystr" where
  "ascii_lower s = map (\<lambda>c. if 65 \<le> c \<and> c \<le> 90 then c + 32 else c) s"

definition fenced :: "pystr \<Rightarrow> pystr" where
  "fenced J = str ''```json'' @ [10] @ J @ [10] @ str ''```''"

definition jane_text :: pystr where
  \<open>jane_text = str ''{"name": "Jane Doe"}''\<close>

definition jane_json :: json where
  "jane_json = JObj [(str ''name'', JStr (str ''Jane Doe''))]"

definition pdf_magic :: bytes where
  "pdf_magic = [0x25, 0x50, 0x44, 0x46]"

definition zip_magic :: bytes where
  "zip_magic = [0x50, 0x4B, 0x03, 0x04]"

definition png_magic :: bytes where
  "png_magic = [0x89, 0x50, 0x4E, 0x47]"

definition demo_server :: server_env where
  "demo_server =
     \<lparr> py_lower = ascii_lower,
       pdf_open = (\<lambda>b. if take 4 b = pdf_magic then Inr [Some (str ''Jane Doe''), None]
                       else Inl (PyExn LibraryError (str ''No /Root object! - Is this really a PDF?''))),
       docx_open = (\<lambda>b. if take 4 b = zip_magic then Inr [str ''Jane Doe'', str ''jane@example.com'']
                        else Inl (PyExn LibraryError (str ''File is not a zip file''))),
       image_ocr = (\<lambda>b. if take 4 b = png_magic then Inr (str ''Jane Doe'' @ [10])
                        else Inl (PyExn LibraryError (str ''cannot identify image file''))),
       generate_content = (\<lambda>contents. Inr (Some (fenced jane_text))),
       json_loads = (\<lambda>s. if s = jane_text then Inr jane_json
                         else Inl (PyExn JSONDecodeError (str ''Expecting value''))) \<rparr>"

definition cv_pdf_upload :: file_storage where
  "cv_pdf_upload = \<lparr> fs_filename = str ''cv.pdf'', fs_bytes = [0, 1, 2, 3] \<rparr>"

definition cv_pdf_request :: "pystr \<rightharpoonup> file_storage" where
  "cv_pdf_request = [str ''file'' \<mapsto> cv_pdf_upload]"

definition img_upload :: file_storage where
  "img_upload = \<lparr> fs_filename = str ''IMG.PNG'', fs_bytes = png_magic \<rparr>"

definition docx_upload :: file_storage where
  "docx_upload = \<lparr> fs_filename = str ''Resume.docx'', fs_bytes = zip_magic \<rparr>"

definition txt_upload :: file_storage where
  "txt_upload = \<lparr> fs_filename = str ''notes.txt'', fs_bytes = pdf_magic \<rparr>"

text \<open>
  For the bot: a clock that ticks once a second, a model that answers \<open>Hello\<close> to a text
  and \<open>A cat\<close> to a photo, a transport that delivers every reply, and a JSON codec that
  writes and reads objects of strings as modelled above, knows in addition the history
  documents listed in \<open>demo_docs\<close> (written as \<open>json.dumps\<close> with \<open>indent=4\<close> writes them)
  and rejects every other text.
\<close>

definition demo_clock :: "nat \<Rightarrow> datetime" where
  "demo_clock n =
     \<lparr> dt_year = 2026, dt_month = 11, dt_day = 4, dt_hour = 10, dt_minute = 0,
       dt_second = n mod 60, dt_microsecond = 0 \<rparr>"

definition entry_text :: "pystr \<Rightarrow> pystr \<Rightarrow> pystr \<Rightarrow> pystr" where
  \<open>entry_text timestamp sender message =
     str ''    {'' @ [10] @
     str ''        "timestamp": "'' @ timestamp @ str ''",'' @ [10] @
     str ''        "sender": "'' @ sender @ str ''",'' @ [10] @
     str ''        "message": "'' @ message @ str ''"'' @ [10] @
     str ''    }''\<close>

definition blue_memory :: json where
  "blue_memory = JObj [(str ''favorite_color'', JStr (str ''blue''))]"

definition entry_hi :: json where
  "entry_hi = history_entry (str ''2026-11-04 10:00:00'') (str ''You'') (str ''hi'')"

definition entry_hello :: json where
  "entry_hello = history_entry (str ''2026-11-04 10:00:01'') (str ''AI'') (str ''Hello'')"

definition entry_image :: json where
  "entry_image = history_entry (str ''2026-11-04 10:00:00'') (str ''You (image)'') (str ''[Image]'')"

definition entry_cat :: json where
  "entry_cat = history_entry (str ''2026-11-04 10:00:01'') (str ''AI'') (str ''A cat'')"

definition demo_docs :: "(json \<times> pystr) list" where
  \<open>demo_docs =
     [(JArr [entry_hi],
         str ''['' @ [10] @
         entry_text (str ''2026-11-04 10:00:00'') (str ''You'') (str ''hi'') @ [10] @ str '']''),
      (JArr [entry_hi, entry_hello],
         str ''['' @ [10] @
         entry_text (str ''2026-11-04 10:00:00'') (str ''You'') (str ''hi'') @ str '','' @ [10] @
         entry_text (str ''2026-11-04 10:00:01'') (str ''AI'') (str ''Hello'') @ [10] @ str '']''),
      (JArr [entry_image],
         str ''['' @ [10] @
         entry_text (str ''2026-11-04 10:00:00'') (str ''You (image)'') (str ''[Image]'') @ [10] @
         str '']''),
      (JArr [entry_image, entry_cat],
         str ''['' @ [10] @
         entry_text (str ''2026-11-04 10:00:00'') (str ''You (image)'') (str ''[Image]'') @
         str '','' @ [10] @
         entry_text (str ''2026-11-04 10:00:01'') (str ''AI'') (str ''A cat'') @ [10] @ str '']'')]\<close>

fun string_pairs :: "(pystr \<times> json) list \<Rightarrow> (pystr \<times> pystr) list option" where
  "string_pairs [] = Some []"
| "string_pairs ((k, v) # kvs) =
     (case v of
        JStr s \<Rightarrow> (case string_pairs kvs of None \<Rightarrow> None | Some r \<Rightarrow> Some ((k, s) # r))
      | other \<Rightarrow> None)"

definition listed_dumps :: "json \<Rightarrow> pystr" where
  "listed_dumps v = (case map_of demo_docs v of Some t \<Rightarrow> t | None \<Rightarrow> str ''null'')"

definition listed_load :: "pystr \<Rightarrow> pyexn + json" where
  "listed_load t =
     (case map_of (map (\<lambda>(v, t). (t, v)) demo_docs) t of
        Some v \<Rightarrow> Inr v
      | None \<Rightarrow> Inl (PyExn JSONDecodeError (str ''Expecting value'')))"

definition demo_dumps :: "json \<Rightarrow> pystr" where
  "demo_dumps v =
     (case v of
        JObj m \<Rightarrow> (case string_pairs m of Some kvs \<Rightarrow> dumps_object kvs | None \<Rightarrow> listed_dumps v)
      | other \<Rightarrow> listed_dumps v)"

definition demo_load :: "pystr \<Rightarrow> pyexn + json" where
  "demo_load t = (case loads_object t of Some m \<Rightarrow> Inr (JObj m) | None \<Rightarrow> listed_load t)"

definition text_response :: "pystr \<Rightarrow> response" where
  "text_response t =
     Response (Some t) (Some [Part (Some t)]) (Some [Candidate (Some (Content (Some [Part (Some t)])))])"

text \<open>A response whose only part carries no text, as for a part with inline data.\<close>

definition textless_response :: response where
  "textless_response =
     Response None (Some [Part None]) (Some [Candidate (Some (Content (Some [Part None])))])"

definition no_candidates_response :: response where
  "no_candidates_response = Response None None None"

definition broken_candidate_response :: response where
  "broken_candidate_response = Response None None (Some [Candidate None])"

definition parts_only_response :: response where
  "parts_only_response =
     Response (Some []) None
       (Some [Candidate (Some (Content (Some [Part (Some (str ''A'')), Part None]))),
              Candidate (Some (Content (Some [Part (Some (str '' cat''))])))])"

definition demo_bot :: bot_env where
  "demo_bot =
     \<lparr> json_load = demo_load,
       json_dumps = demo_dumps,
       format_value = (\<lambda>v. case v of JStr s \<Rightarrow> s | other \<Rightarrow> str ''?''),
       lower = ascii_lower,
       send_message = (\<lambda>prompt. Inr (text_response (str ''Hello''))),
       generate_with_image = (\<lambda>image_bytes prompt. Inr (text_response (str ''A cat''))),
       download_to_memory = (\<lambda>file_id. Inr png_magic),
       reply_text = (\<lambda>t. None),
       clock = demo_clock \<rparr>"

definition textless_bot :: bot_env where
  "textless_bot =
     demo_bot\<lparr> send_message := (\<lambda>prompt. Inr textless_response),
                generate_with_image := (\<lambda>image_bytes prompt. Inr textless_response) \<rparr>"

text \<open>A bot whose history files cannot be decoded as UTF-8.\<close>

definition undecodable_bot :: bot_env where
  "undecodable_bot =
     demo_bot\<lparr> json_load :=
       (\<lambda>t. Inl (PyExn UnicodeDecodeError (str ''invalid start byte''))) \<rparr>"

definition empty_world :: world where
  "empty_world = \<lparr> files = Map.empty, replied = [], clock_reads = 0 \<rparr>"

definition corrupt_memory_world :: world where
  "corrupt_memory_world =
     \<lparr> files = [user_memory_path 42 \<mapsto> str ''{not json''], replied = [], clock_reads = 0 \<rparr>"

definition corrupt_history_world :: world where
  "corrupt_history_world =
     \<lparr> files = [user_history_path 42 \<mapsto> str ''{not json''], replied = [], clock_reads = 0 \<rparr>"

definition object_history_world :: world where
  "object_history_world =
     \<lparr> files = [user_history_path 42 \<mapsto> dumps_object [(str ''favorite_color'', str ''blue'')]],
       replied = [], clock_reads = 0 \<rparr>"

definition hi_world :: world where
  "hi_world =
     \<lparr> files = [user_history_path 42 \<mapsto> demo_dumps (JArr [entry_hi])], replied = [],
       clock_reads = 1 \<rparr>"

definition hi_update :: update where
  "hi_update = \<lparr> from_user_id = 42, msg_text = str ''hi'', msg_caption = None, msg_photo = [] \<rparr>"

definition photo_update :: update where
  "photo_update =
     \<lparr> from_user_id = 42, msg_text = [], msg_caption = None,
       msg_photo = [str ''small'', str ''large''] \<rparr>"

definition memory_update :: update where
  "memory_update =
     \<lparr> from_user_id = 42, msg_text = str ''/memory'', msg_caption = None, msg_photo = [] \<rparr>"

definition remember_update :: update where
  "remember_update =
     \<lparr> from_user_id = 42, msg_text = str ''/remember favorite_color=blue'',
       msg_caption = None, msg_photo = [] \<rparr>"

definition remember_usage_update :: update where
  "remember_usage_update =
     \<lparr> from_user_id = 42, msg_text = str ''/remember favorite_color'',
       msg_caption = None, msg_photo = [] \<rparr>"

section \<open>Properties of the string operations\<close>

lemma strip_where_tail:
  "dropWhile P s = strip_where P s @ rev (takeWhile P (rev (dropWhile P s)))"
proof -
  have "rev (dropWhile P s) = takeWhile P (rev (dropWhile P s)) @ dropWhile P (rev (dropWhile P s))"
    by simp
  then have "rev (rev (dropWhile P s)) =
      rev (dropWhile P (rev (dropWhile P s))) @ rev (takeWhile P (rev (dropWhile P s)))"
    by (metis rev_append)
  then show ?thesis by (simp add: strip_where_def)
qed

lemma strip_where_decomp:
  "s = takeWhile P s @ strip_where P s @ rev (takeWhile P (rev (dropWhile P s)))"
  using strip_where_tail [of P s] takeWhile_dropWhile_id [of P s] by simp

lemma strip_where_hd: 
  assumes "strip_where P s \<noteq> []" shows "\<not> P (hd (strip_where P s))"
proof -
  have "hd (dropWhile P s) = hd (strip_where P s)"
    using assms strip_where_tail [of P s] by (metis hd_append2)
  moreover have "dropWhile P s \<noteq> []"
    using assms by (auto simp: strip_where_def dest: set_dropWhileD)
  ultimately show ?thesis using hd_dropWhile [of P s] by simp
qed

lemma strip_where_last: "strip_where P s \<noteq> [] \<Longrightarrow> \<not> P (last (strip_where P s))"
  by (simp add: strip_where_def last_rev hd_dropWhile)

lemma strip_where_id: 
  assumes "s = [] \<or> (\<not> P (hd s) \<and> \<not> P (last s))" shows "strip_where P s = s"
proof (cases "s = []")
  case True then show ?thesis by (simp add: strip_where_def)
next
  case False
  with assms have h: "\<not> P (hd s)" and l: "\<not> P (last s)" by auto
  from False h have "dropWhile P s = s" by (cases s) auto
  moreover from False l have "dropWhile P (rev s) = rev s" 
    by (cases "rev s") (auto simp: last_rev [symmetric] hd_rev)
  ultimately show ?thesis by (simp add: strip_where_def)
qed

lemma strip_where_Cons: "P a \<Longrightarrow> strip_where P (a # s) = strip_where P s"
  by (simp add: strip_where_def)

lemma strip_where_snoc: 
  assumes "P a" shows "strip_where P (s @ [a]) = strip_where P s"
proof (cases "\<forall>x\<in>set s. P x")
  case True
  then have a: "dropWhile P s = []" by (simp add: dropWhile_eq_Nil_conv)
  from True assms have b: "dropWhile P (s @ [a]) = []"
    by (simp add: dropWhile_eq_Nil_conv)
  show ?thesis unfolding strip_where_def a b by simp
next
  case False
  then obtain x where "x \<in> set s" "\<not> P x" by blast
  then have "dropWhile P (s @ [a]) = dropWhile P s @ [a]" by (rule dropWhile_append1)
  with assms show ?thesis by (simp add: strip_where_def)
qed

lemma replace_first_prefix:
  assumes "old \<noteq> []" shows "replace_first old new (old @ rest) = new @ rest"
proof (cases old)
  case Nil with assms show ?thesis by simp
next
  case (Cons c cs)
  have "prefix old (c # cs @ rest)" using Cons by simp
  moreover have "drop (length old) (c # cs @ rest) = rest" using Cons by simp
  ultimately show ?thesis using Cons by simp
qed

lemma replace_first_absent: "\<not> sublist old s \<Longrightarrow> replace_first old new s = s"
proof (induction s)
  case Nil then show ?case by auto
next
  case (Cons c cs)
  then have "\<not> prefix old (c # cs)" by (meson prefix_imp_sublist)
  moreover from Cons.prems have "\<not> sublist old cs" by (meson sublist_Cons_right)
  ultimately show ?case using Cons.IH by simp
qed

lemma strip_where_idem: "strip_where P (strip_where P s) = strip_where P s"
  by (rule strip_where_id) (metis strip_where_hd strip_where_last)

section \<open>Properties of the resume service\<close>

subsection \<open>Cleaning a fenced model output\<close>

lemma py_strip_fenced: "py_strip (fenced J) = fenced J"
  unfolding py_strip_def
  by (rule strip_where_id) (simp add: fenced_def py_isspace_def)

lemma strip_chars_fenced: "py_strip_chars (str ''`'') (fenced J) = str ''json'' @ [10] @ J @ [10]"
  by (simp add: py_strip_chars_def strip_where_def fenced_def)

lemma py_strip_newlines: "py_strip ([10] @ J @ [10]) = py_strip J"
proof -
  have nl: "py_isspace 10" by (simp add: py_isspace_def)
  have "strip_where py_isspace (10 # (J @ [10])) = strip_where py_isspace (J @ [10])"
    using nl by (rule strip_where_Cons)
  also have "\<dots> = strip_where py_isspace J"
    using nl by (rule strip_where_snoc)
  finally show ?thesis by (simp add: py_strip_def)
qed

lemma clean_fenced: "clean_raw_output (fenced J) = py_strip J"
proof -
  have "startswith (fenced J) (str ''```'')"
    by (simp add: startswith_def fenced_def)
  moreover have "replace_first (str ''json'') [] (str ''json'' @ [10] @ J @ [10]) = [10] @ J @ [10]"
    by (rule replace_first_prefix [where new = "[]", simplified]) simp
  ultimately show ?thesis
    by (simp only: clean_raw_output_def Let_def py_strip_fenced strip_chars_fenced
        py_strip_newlines if_True)
qed

lemma clean_unfenced:
  assumes "\<not> startswith (py_strip J) (str ''```'')"
  shows "clean_raw_output J = py_strip J"
  using assms by (simp add: clean_raw_output_def)

text \<open>
  \<^bold>\<open>Claim C9.\<close> For every text \<open>J\<close> that, once trimmed, starts with an opening brace (as
  every JSON object text does), normalising the fenced form \<open>```json\nJ\n```\<close> gives the
  same result as normalising \<open>J\<close> itself, whatever \<open>json.loads\<close> makes of the text.
\<close>

theorem fenced_same_as_unfenced:
  assumes "startswith (py_strip J) (str ''{'')"
  shows "normalize_resume_json env (fenced J) = normalize_resume_json env J"
proof -
  from assms have "\<not> startswith (py_strip J) (str ''```'')"
    by (auto simp: startswith_def prefix_def)
  then have "clean_raw_output J = py_strip J" by (rule clean_unfenced)
  then show ?thesis by (simp add: normalize_resume_json_def clean_fenced)
qed


text \<open>Claim C9 on the concrete service, where both forms parse to the same object.\<close>

theorem fenced_same_as_unfenced_witness:
  "startswith (py_strip jane_text) (str ''{'') \<and>
   normalize_resume_json demo_server (fenced jane_text)
     = normalize_resume_json demo_server jane_text \<and>
   normalize_resume_json demo_server jane_text = jane_json"
proof -
  have h: "startswith (py_strip jane_text) (str ''{'')"
    by (simp add: py_strip_def strip_where_def py_isspace_def jane_text_def startswith_def)
  have "clean_raw_output jane_text = jane_text"
    by (simp add: clean_raw_output_def py_strip_def strip_where_def py_isspace_def
        jane_text_def startswith_def)
  then have "normalize_resume_json demo_server jane_text = jane_json"
    by (simp add: normalize_resume_json_def demo_server_def)
  with h fenced_same_as_unfenced [OF h, of demo_server] show ?thesis by blast
qed

lemma strip_chars_ends:
  "\<exists>a b. length (takeWhile (\<lambda>c. c = x) s) = a \<and>
     s = replicate a x @ py_strip_chars [x] s @ replicate b x"
proof -
  let ?P = "\<lambda>c. c \<in> set [x]"
  let ?l = "takeWhile ?P s"
  let ?r = "rev (takeWhile ?P (rev (dropWhile ?P s)))"
  have P: "?P = (\<lambda>c. c = x)" by auto
  have l: "?l = replicate (length ?l) x"
    by (rule replicate_length_same [symmetric]) (auto dest: set_takeWhileD)
  have r: "?r = replicate (length ?r) x"
    by (rule replicate_length_same [symmetric]) (auto dest: set_takeWhileD)
  have "s = ?l @ py_strip_chars [x] s @ ?r"
    unfolding py_strip_chars_def by (rule strip_where_decomp)
  with l r have "s = replicate (length ?l) x @ py_strip_chars [x] s @ replicate (length ?r) x"
    by simp
  then show ?thesis unfolding P by blast
qed

lemma fence_length:
  assumes "startswith s (str ''```'')"
  shows "3 \<le> length (takeWhile (\<lambda>c. c = 96) s)"
proof -
  from assms obtain r where "s = [96, 96, 96] @ r"
    by (auto simp: startswith_def prefix_def)
  then show ?thesis by simp
qed

text \<open>
  \<^bold>\<open>Claim C1\<close>, as amended. When the trimmed model output starts with a triple-backtick
  fence, the cleaning step removes the backticks at the two ends of the trimmed text, at
  least three of them at the start, and the text left over neither starts nor ends with a
  backtick (backticks inside it are kept). When the text left over starts with the tag
  \<open>json\<close>, that occurrence is removed; when \<open>json\<close> does not occur in it, nothing is
  removed. In both cases the result is then trimmed of surrounding whitespace, and that
  is the text handed to the JSON parser.
\<close>

theorem fence_cleaning:
  assumes "startswith (py_strip raw) (str ''```'')"
  shows "(\<exists>a b. 3 \<le> a \<and>
            py_strip raw = replicate a 96 @ py_strip_chars (str ''`'') (py_strip raw) @ replicate b 96) \<and>
         (py_strip_chars (str ''`'') (py_strip raw) = [] \<or>
            hd (py_strip_chars (str ''`'') (py_strip raw)) \<noteq> 96 \<and>
            last (py_strip_chars (str ''`'') (py_strip raw)) \<noteq> 96) \<and>
         (\<forall>rest. py_strip_chars (str ''`'') (py_strip raw) = str ''json'' @ rest \<longrightarrow>
            clean_raw_output raw = py_strip rest) \<and>
         (\<not> sublist (str ''json'') (py_strip_chars (str ''`'') (py_strip raw)) \<longrightarrow>
            clean_raw_output raw = py_strip (py_strip_chars (str ''`'') (py_strip raw)))"
proof (intro conjI allI impI)
  show "\<exists>a b. 3 \<le> a \<and>
      py_strip raw = replicate a 96 @ py_strip_chars (str ''`'') (py_strip raw) @ replicate b 96"
    using strip_chars_ends [of 96 "py_strip raw"] fence_length [OF assms] by auto
next
  let ?t = "py_strip_chars (str ''`'') (py_strip raw)"
  have "?t \<noteq> [] \<Longrightarrow> hd ?t \<noteq> 96"
    using strip_where_hd [of "\<lambda>c. c \<in> set [96]" "py_strip raw"]
    by (auto simp: py_strip_chars_def)
  moreover have "?t \<noteq> [] \<Longrightarrow> last ?t \<noteq> 96"
    using strip_where_last [of "\<lambda>c. c \<in> set [96]" "py_strip raw"]
    by (auto simp: py_strip_chars_def)
  ultimately show "?t = [] \<or> hd ?t \<noteq> 96 \<and> last ?t \<noteq> 96" by blast
next
  fix rest
  assume t: "py_strip_chars (str ''`'') (py_strip raw) = str ''json'' @ rest"
  have "replace_first (str ''json'') [] (str ''json'' @ rest) = rest"
    by (rule replace_first_prefix [where new = "[]", simplified]) simp
  with assms t show "clean_raw_output raw = py_strip rest"
    by (simp only: clean_raw_output_def Let_def if_True)
next
  assume "\<not> sublist (str ''json'') (py_strip_chars (str ''`'') (py_strip raw))"
  then have "replace_first (str ''json'') [] (py_strip_chars (str ''`'') (py_strip raw))
      = py_strip_chars (str ''`'') (py_strip raw)"
    by (rule replace_first_absent)
  with assms show "clean_raw_output raw = py_strip (py_strip_chars (str ''`'') (py_strip raw))"
    by (simp only: clean_raw_output_def Let_def if_True)
qed

text \<open>The amended claim at a fenced output with spaces before and a newline after it.\<close>

theorem fence_cleaning_witness:
  "startswith (py_strip ([32, 32] @ fenced jane_text @ [10])) (str ''```'') \<and>
   clean_raw_output ([32, 32] @ fenced jane_text @ [10]) = jane_text"
proof -
  have h: "startswith (py_strip ([32, 32] @ fenced jane_text @ [10])) (str ''```'')"
    by (simp add: py_strip_def strip_where_def py_isspace_def fenced_def jane_text_def
        startswith_def)
  have t: "py_strip_chars (str ''`'') (py_strip ([32, 32] @ fenced jane_text @ [10]))
      = str ''json'' @ ([10] @ jane_text @ [10])"
    by (simp add: py_strip_chars_def py_strip_def strip_where_def py_isspace_def fenced_def
        jane_text_def)
  have "py_strip ([10] @ jane_text @ [10]) = jane_text"
    by (simp add: py_strip_def strip_where_def py_isspace_def jane_text_def)
  with fence_cleaning [OF h] t h show ?thesis by metis
qed

text \<open>
  Claim C1 as stated fails: the cleaning does not strip all backticks. A backtick inside
  the payload of a fenced output is still there in the text that is parsed.
\<close>

theorem interior_backtick_survives:
  \<open>startswith (py_strip (fenced (str ''{"a": "`"}''))) (str ''```'') \<and>
   clean_raw_output (fenced (str ''{"a": "`"}'')) = str ''{"a": "`"}'' \<and>
   96 \<in> set (clean_raw_output (fenced (str ''{"a": "`"}'')))\<close>
  by (simp add: clean_raw_output_def py_strip_chars_def py_strip_def strip_where_def
      py_isspace_def fenced_def startswith_def)

text \<open>
  \<open>replace\<close> deletes the leftmost \<open>json\<close> wherever it is: in a fence without a language
  tag it is taken out of the payload.
\<close>

lemma untagged_fence_loses_payload_text:
  \<open>clean_raw_output (str ''```'' @ [10] @ str ''{"json": 1}'' @ [10] @ str ''```'')
     = str ''{"": 1}''\<close>
  by (simp add: clean_raw_output_def py_strip_chars_def py_strip_def strip_where_def
      py_isspace_def startswith_def)

subsection \<open>Parsing the cleaned output\<close>

text \<open>
  \<^bold>\<open>Claim C2.\<close> When \<open>json.loads\<close> raises on the cleaned text, whatever the exception, the
  result is the record with \<open>error\<close> set to \<open>JSON parsing failed\<close> and \<open>raw_output\<close> set to
  the cleaned text; when it returns a value, the result is that value unchanged. In
  both cases \<open>parse_resume_with_gemini\<close> returns normally once the model has answered
  with a string.
\<close>

theorem normalize_resume_json_cases:
  "(\<forall>e. json_loads env (clean_raw_output raw) = Inl e \<longrightarrow>
      normalize_resume_json env raw =
        JObj [(str ''error'', JStr (str ''JSON parsing failed'')),
              (str ''raw_output'', JStr (clean_raw_output raw))]) \<and>
   (\<forall>parsed. json_loads env (clean_raw_output raw) = Inr parsed \<longrightarrow>
      normalize_resume_json env raw = parsed) \<and>
   (\<forall>raw_text. generate_content env [system_prompt, schema_prompt, user_prompt raw_text]
        = Inr (Some raw) \<longrightarrow>
      parse_resume_with_gemini env raw_text = Inr (normalize_resume_json env raw))"
  by (simp add: normalize_resume_json_def parse_resume_with_gemini_def)

text \<open>Both branches on the concrete service: an invalid text and a fenced JSON object.\<close>

theorem normalize_resume_json_cases_witness:
  "json_loads demo_server (clean_raw_output (str ''{not json''))
     = Inl (PyExn JSONDecodeError (str ''Expecting value'')) \<and>
   normalize_resume_json demo_server (str ''{not json'') =
     JObj [(str ''error'', JStr (str ''JSON parsing failed'')),
           (str ''raw_output'', JStr (str ''{not json''))] \<and>
   json_loads demo_server (clean_raw_output (fenced jane_text)) = Inr jane_json \<and>
   normalize_resume_json demo_server (fenced jane_text) = jane_json \<and>
   generate_content demo_server [system_prompt, schema_prompt, user_prompt (str ''Jane Doe'')]
     = Inr (Some (fenced jane_text)) \<and>
   parse_resume_with_gemini demo_server (str ''Jane Doe'') = Inr jane_json"
proof -
  have c1: "clean_raw_output (str ''{not json'') = str ''{not json''"
    by (simp add: clean_raw_output_def py_strip_def strip_where_def py_isspace_def
        startswith_def)
  have l1: "json_loads demo_server (clean_raw_output (str ''{not json''))
      = Inl (PyExn JSONDecodeError (str ''Expecting value''))"
    unfolding c1 by (simp add: demo_server_def jane_text_def)
  have c2: "clean_raw_output (fenced jane_text) = jane_text"
    by (simp add: clean_fenced py_strip_def strip_where_def py_isspace_def jane_text_def)
  have l2: "json_loads demo_server (clean_raw_output (fenced jane_text)) = Inr jane_json"
    unfolding c2 by (simp add: demo_server_def)
  have g: "generate_content demo_server
      [system_prompt, schema_prompt, user_prompt (str ''Jane Doe'')] = Inr (Some (fenced jane_text))"
    by (simp add: demo_server_def)
  from normalize_resume_json_cases [of demo_server "str ''{not json''"] l1
  have r1: "normalize_resume_json demo_server (str ''{not json'') =
     JObj [(str ''error'', JStr (str ''JSON parsing failed'')),
           (str ''raw_output'', JStr (str ''{not json''))]"
    by (simp only: c1) 
  from normalize_resume_json_cases [of demo_server "fenced jane_text"] l2 g
  have r2: "normalize_resume_json demo_server (fenced jane_text) = jane_json"
    and r3: "parse_resume_with_gemini demo_server (str ''Jane Doe'') = Inr jane_json"
    by metis+
  from l1 r1 l2 r2 g r3 show ?thesis by (intro conjI)
qed

subsection \<open>The route\<close>

text \<open>
  \<^bold>\<open>Claim C3\<close>, as amended. When a file is present under the field \<open>file\<close>, has a name and
  its extraction raises (the format parser cannot open the bytes), the route answers
  with status 500 and the body \<open>{"error": "Server error", "details": str(e)}\<close>. The
  handler returns this response at once: extraction is not attempted a second time.
\<close>

theorem unreadable_upload_is_server_error:
  assumes "request_files (str ''file'') = Some file"
    and "fs_filename file \<noteq> []"
    and "extract_text env file = Inl e"
  shows "extract_resume env request_files =
           (JObj [(str ''error'', JStr (str ''Server error'')),
                  (str ''details'', JStr (exn_msg e))], 500)"
  using assms by (simp add: extract_resume_def server_error_def)

lemma cv_pdf_does_not_open:
  "extract_text demo_server cv_pdf_upload
     = Inl (PyExn LibraryError (str ''No /Root object! - Is this really a PDF?''))"
  by (simp add: extract_text_def extract_text_from_pdf_def demo_server_def cv_pdf_upload_def
      ascii_lower_def endswith_def suffix_def pdf_magic_def)

theorem unreadable_upload_is_server_error_witness:
  "cv_pdf_request (str ''file'') = Some cv_pdf_upload \<and>
   fs_filename cv_pdf_upload \<noteq> [] \<and>
   extract_text demo_server cv_pdf_upload
     = Inl (PyExn LibraryError (str ''No /Root object! - Is this really a PDF?'')) \<and>
   extract_resume demo_server cv_pdf_request =
     (JObj [(str ''error'', JStr (str ''Server error'')),
            (str ''details'', JStr (str ''No /Root object! - Is this really a PDF?''))], 500)"
proof -
  have a: "cv_pdf_request (str ''file'') = Some cv_pdf_upload"
    by (simp add: cv_pdf_request_def)
  have b: "fs_filename cv_pdf_upload \<noteq> []"
    by (simp add: cv_pdf_upload_def)
  have "extract_resume demo_server cv_pdf_request =
     (JObj [(str ''error'', JStr (str ''Server error'')),
            (str ''details'', JStr (exn_msg (PyExn LibraryError
               (str ''No /Root object! - Is this really a PDF?''))))], 500)"
    using a b cv_pdf_does_not_open
    by (rule unreadable_upload_is_server_error [where request_files = cv_pdf_request])
  with a b cv_pdf_does_not_open show ?thesis by simp
qed

text \<open>
  Claim C3 as stated fails: an upload named \<open>cv.pdf\<close> whose bytes are not a PDF is answered
  with status 500, not with a 400.
\<close>

theorem unreadable_upload_is_not_400:
  "pdf_open demo_server (fs_bytes cv_pdf_upload)
     = Inl (PyExn LibraryError (str ''No /Root object! - Is this really a PDF?'')) \<and>
   snd (extract_resume demo_server cv_pdf_request) = 500 \<and>
   snd (extract_resume demo_server cv_pdf_request) \<noteq> 400"
  by (simp add: extract_resume_def server_error_def cv_pdf_request_def cv_pdf_does_not_open)
    (simp add: demo_server_def cv_pdf_upload_def pdf_magic_def)

subsection \<open>Choosing the extractor\<close>

lemma endswith_last:
  assumes "endswith s p" and "p \<noteq> []" shows "last s = last p"
  using assms by (auto simp: endswith_def suffix_def)

lemma py_strip_trimmed:
  "py_strip s = [] \<or> \<not> py_isspace (hd (py_strip s)) \<and> \<not> py_isspace (last (py_strip s))"
  unfolding py_strip_def using strip_where_hd strip_where_last by blast

lemma extractors_trimmed:
  "extract_text_from_pdf env b = Inr t \<Longrightarrow> t = py_strip t"
  "extract_text_from_docx env b = Inr t \<Longrightarrow> t = py_strip t"
  "extract_text_from_image env b = Inr t \<Longrightarrow> t = py_strip t"
  by (auto simp: extract_text_from_pdf_def extract_text_from_docx_def
      extract_text_from_image_def py_strip_def strip_where_idem split: sum.splits)

lemma extract_text_trimmed:
  assumes "extract_text env file = Inr t" shows "t = py_strip t"
  using assms extractors_trimmed [of env "fs_bytes file" t]
  by (auto simp: extract_text_def Let_def split: if_splits)

text \<open>
  \<^bold>\<open>Claim C6\<close>, as amended. \<open>extract_text\<close> routes by the suffix of the lower-cased
  filename: \<open>.pdf\<close> to PDF extraction, \<open>.docx\<close> to DOCX extraction, \<open>.png\<close>, \<open>.jpg\<close> and
  \<open>.jpeg\<close> to OCR, and every other name to PDF extraction. PDF extraction joins the
  texts of the pages with newlines, a page without text counting as the empty string;
  DOCX extraction joins the paragraph texts with newlines; each result is trimmed, so a
  returned text neither starts nor ends with whitespace.
\<close>

theorem extract_text_routes_by_lowered_suffix:
  "(endswith (py_lower env (fs_filename file)) (str ''.pdf'') \<longrightarrow>
      extract_text env file = extract_text_from_pdf env (fs_bytes file)) \<and>
   (endswith (py_lower env (fs_filename file)) (str ''.docx'') \<longrightarrow>
      extract_text env file = extract_text_from_docx env (fs_bytes file)) \<and>
   (endswith (py_lower env (fs_filename file)) (str ''.png'') \<or>
    endswith (py_lower env (fs_filename file)) (str ''.jpg'') \<or>
    endswith (py_lower env (fs_filename file)) (str ''.jpeg'') \<longrightarrow>
      extract_text env file = extract_text_from_image env (fs_bytes file)) \<and>
   (\<not> endswith (py_lower env (fs_filename file)) (str ''.pdf'') \<and>
    \<not> endswith (py_lower env (fs_filename file)) (str ''.docx'') \<and>
    \<not> endswith (py_lower env (fs_filename file)) (str ''.png'') \<and>
    \<not> endswith (py_lower env (fs_filename file)) (str ''.jpg'') \<and>
    \<not> endswith (py_lower env (fs_filename file)) (str ''.jpeg'') \<longrightarrow>
      extract_text env file = extract_text_from_pdf env (fs_bytes file)) \<and>
   (\<forall>pages. pdf_open env b = Inr pages \<longrightarrow>
      extract_text_from_pdf env b =
        Inr (py_strip (py_join [10]
               (map (\<lambda>page_text. case page_text of None \<Rightarrow> [] | Some t \<Rightarrow> t) pages)))) \<and>
   (\<forall>paragraphs. docx_open env b = Inr paragraphs \<longrightarrow>
      extract_text_from_docx env b = Inr (py_strip (py_join [10] paragraphs))) \<and>
   (\<forall>t. image_ocr env b = Inr t \<longrightarrow> extract_text_from_image env b = Inr (py_strip t)) \<and>
   (\<forall>t. extract_text env file = Inr t \<longrightarrow>
      t = [] \<or> \<not> py_isspace (hd t) \<and> \<not> py_isspace (last t))"
proof -
  let ?fn = "py_lower env (fs_filename file)"
  have x: "endswith ?fn (str ''.docx'') \<Longrightarrow> \<not> endswith ?fn (str ''.pdf'')"
    using endswith_last [of ?fn "str ''.docx''"] endswith_last [of ?fn "str ''.pdf''"] by auto
  have g: "endswith ?fn (str ''.png'') \<or> endswith ?fn (str ''.jpg'') \<or> endswith ?fn (str ''.jpeg'')
      \<Longrightarrow> \<not> endswith ?fn (str ''.pdf'') \<and> \<not> endswith ?fn (str ''.docx'')"
    using endswith_last [of ?fn "str ''.docx''"] endswith_last [of ?fn "str ''.pdf''"]
      endswith_last [of ?fn "str ''.png''"] endswith_last [of ?fn "str ''.jpg''"]
      endswith_last [of ?fn "str ''.jpeg''"] by auto
  have routes: "(endswith ?fn (str ''.pdf'') \<longrightarrow>
      extract_text env file = extract_text_from_pdf env (fs_bytes file)) \<and>
   (endswith ?fn (str ''.docx'') \<longrightarrow>
      extract_text env file = extract_text_from_docx env (fs_bytes file)) \<and>
   (endswith ?fn (str ''.png'') \<or> endswith ?fn (str ''.jpg'') \<or> endswith ?fn (str ''.jpeg'') \<longrightarrow>
      extract_text env file = extract_text_from_image env (fs_bytes file)) \<and>
   (\<not> endswith ?fn (str ''.pdf'') \<and> \<not> endswith ?fn (str ''.docx'') \<and>
    \<not> endswith ?fn (str ''.png'') \<and> \<not> endswith ?fn (str ''.jpg'') \<and>
    \<not> endswith ?fn (str ''.jpeg'') \<longrightarrow>
      extract_text env file = extract_text_from_pdf env (fs_bytes file))"
    using x g by (auto simp: extract_text_def Let_def)
  have trimmed: "\<forall>t. extract_text env file = Inr t \<longrightarrow>
      t = [] \<or> \<not> py_isspace (hd t) \<and> \<not> py_isspace (last t)"
    using extract_text_trimmed py_strip_trimmed by metis
  show ?thesis
    using routes trimmed
    by (simp add: extract_text_from_pdf_def extract_text_from_docx_def
        extract_text_from_image_def)
qed


text \<open>The amended claim on four uploads: a PDF name, a DOCX, an image and a text file.\<close>

lemmas demo_server_eval =
  extract_text_def extract_text_from_pdf_def extract_text_from_docx_def
  extract_text_from_image_def demo_server_def ascii_lower_def endswith_def suffix_to_prefix
  pdf_magic_def zip_magic_def png_magic_def py_strip_def strip_where_def py_isspace_def
  cv_pdf_upload_def img_upload_def docx_upload_def txt_upload_def

theorem extract_text_routes_by_lowered_suffix_witness:
  "endswith (py_lower demo_server (fs_filename cv_pdf_upload)) (str ''.pdf'') \<and>
   extract_text demo_server cv_pdf_upload
     = extract_text_from_pdf demo_server (fs_bytes cv_pdf_upload) \<and>
   endswith (py_lower demo_server (fs_filename docx_upload)) (str ''.docx'') \<and>
   extract_text demo_server docx_upload
     = extract_text_from_docx demo_server (fs_bytes docx_upload) \<and>
   endswith (py_lower demo_server (fs_filename img_upload)) (str ''.png'') \<and>
   extract_text demo_server img_upload
     = extract_text_from_image demo_server (fs_bytes img_upload) \<and>
   \<not> endswith (py_lower demo_server (fs_filename txt_upload)) (str ''.pdf'') \<and>
   \<not> endswith (py_lower demo_server (fs_filename txt_upload)) (str ''.docx'') \<and>
   \<not> endswith (py_lower demo_server (fs_filename txt_upload)) (str ''.png'') \<and>
   \<not> endswith (py_lower demo_server (fs_filename txt_upload)) (str ''.jpg'') \<and>
   \<not> endswith (py_lower demo_server (fs_filename txt_upload)) (str ''.jpeg'') \<and>
   extract_text demo_server txt_upload
     = extract_text_from_pdf demo_server (fs_bytes txt_upload) \<and>
   pdf_open demo_server pdf_magic = Inr [Some (str ''Jane Doe''), None] \<and>
   extract_text_from_pdf demo_server pdf_magic = Inr (str ''Jane Doe'') \<and>
   docx_open demo_server zip_magic = Inr [str ''Jane Doe'', str ''jane@example.com''] \<and>
   extract_text_from_docx demo_server zip_magic
     = Inr (str ''Jane Doe'' @ [10] @ str ''jane@example.com'') \<and>
   image_ocr demo_server png_magic = Inr (str ''Jane Doe'' @ [10]) \<and>
   extract_text_from_image demo_server png_magic = Inr (str ''Jane Doe'') \<and>
   extract_text demo_server docx_upload
     = Inr (str ''Jane Doe'' @ [10] @ str ''jane@example.com'') \<and>
   \<not> py_isspace (hd (str ''Jane Doe'' @ [10] @ str ''jane@example.com'')) \<and>
   \<not> py_isspace (last (str ''Jane Doe'' @ [10] @ str ''jane@example.com''))"
proof -
  have p: "endswith (py_lower demo_server (fs_filename cv_pdf_upload)) (str ''.pdf'')"
    by (simp add: demo_server_eval)
  have d: "endswith (py_lower demo_server (fs_filename docx_upload)) (str ''.docx'')"
    by (simp add: demo_server_eval)
  have i: "endswith (py_lower demo_server (fs_filename img_upload)) (str ''.png'')"
    by (simp add: demo_server_eval)
  have t: "\<not> endswith (py_lower demo_server (fs_filename txt_upload)) (str ''.pdf'')"
    "\<not> endswith (py_lower demo_server (fs_filename txt_upload)) (str ''.docx'')"
    "\<not> endswith (py_lower demo_server (fs_filename txt_upload)) (str ''.png'')"
    "\<not> endswith (py_lower demo_server (fs_filename txt_upload)) (str ''.jpg'')"
    "\<not> endswith (py_lower demo_server (fs_filename txt_upload)) (str ''.jpeg'')"
    by (simp_all add: demo_server_eval)
  have po: "pdf_open demo_server pdf_magic = Inr [Some (str ''Jane Doe''), None]"
    by (simp add: demo_server_def pdf_magic_def)
  have dx: "docx_open demo_server zip_magic = Inr [str ''Jane Doe'', str ''jane@example.com'']"
    by (simp add: demo_server_def zip_magic_def)
  have io: "image_ocr demo_server png_magic = Inr (str ''Jane Doe'' @ [10])"
    by (simp add: demo_server_def png_magic_def)
  have j1: "py_strip (py_join [10] (map (\<lambda>page_text. case page_text of None \<Rightarrow> [] | Some t \<Rightarrow> t)
      [Some (str ''Jane Doe''), None])) = str ''Jane Doe''"
    by (simp add: py_strip_def strip_where_def py_isspace_def)
  have j2: "py_strip (py_join [10] [str ''Jane Doe'', str ''jane@example.com''])
      = str ''Jane Doe'' @ [10] @ str ''jane@example.com''"
    by (simp add: py_strip_def strip_where_def py_isspace_def)
  have j3: "py_strip (str ''Jane Doe'' @ [10]) = str ''Jane Doe''"
    by (simp add: py_strip_def strip_where_def py_isspace_def)
  have b: "fs_bytes docx_upload = zip_magic" by (simp add: docx_upload_def)
  note A = extract_text_routes_by_lowered_suffix [of demo_server cv_pdf_upload pdf_magic]
  note B = extract_text_routes_by_lowered_suffix [of demo_server docx_upload zip_magic]
  note C = extract_text_routes_by_lowered_suffix [of demo_server img_upload png_magic]
  note D = extract_text_routes_by_lowered_suffix [of demo_server txt_upload pdf_magic]
  have r1: "extract_text demo_server cv_pdf_upload
     = extract_text_from_pdf demo_server (fs_bytes cv_pdf_upload)"
    using A p by blast
  have r2: "extract_text demo_server docx_upload
     = extract_text_from_docx demo_server (fs_bytes docx_upload)"
    using B d by blast
  have r3: "extract_text demo_server img_upload
     = extract_text_from_image demo_server (fs_bytes img_upload)"
    using C i by blast
  have r4: "extract_text demo_server txt_upload
     = extract_text_from_pdf demo_server (fs_bytes txt_upload)"
    using D t by blast
  have r5: "extract_text_from_pdf demo_server pdf_magic = Inr (str ''Jane Doe'')"
    using A po j1 by metis
  have r6: "extract_text_from_docx demo_server zip_magic
     = Inr (str ''Jane Doe'' @ [10] @ str ''jane@example.com'')"
    using B dx j2 by metis
  have r7: "extract_text_from_image demo_server png_magic = Inr (str ''Jane Doe'')"
    using C io j3 by metis
  have r8: "extract_text demo_server docx_upload
     = Inr (str ''Jane Doe'' @ [10] @ str ''jane@example.com'')"
    using r2 r6 b by simp
  have ne: "str ''Jane Doe'' @ [10] @ str ''jane@example.com'' \<noteq> []" by simp
  have r9: "\<not> py_isspace (hd (str ''Jane Doe'' @ [10] @ str ''jane@example.com'')) \<and>
   \<not> py_isspace (last (str ''Jane Doe'' @ [10] @ str ''jane@example.com''))"
    using B r8 ne by blast
  from p r1 d r2 i r3 t r4 po r5 dx r6 io r7 r8 r9 show ?thesis by blast
qed

text \<open>
  Claim C6 as stated fails: \<open>IMG.PNG\<close> ends with none of the five suffixes, yet it is sent
  to OCR and not to the PDF fallback, which would reject these bytes.
\<close>

theorem uppercase_png_goes_to_ocr:
  "\<not> endswith (fs_filename img_upload) (str ''.png'') \<and>
   \<not> endswith (fs_filename img_upload) (str ''.jpg'') \<and>
   \<not> endswith (fs_filename img_upload) (str ''.jpeg'') \<and>
   \<not> endswith (fs_filename img_upload) (str ''.pdf'') \<and>
   \<not> endswith (fs_filename img_upload) (str ''.docx'') \<and>
   extract_text demo_server img_upload
     = extract_text_from_image demo_server (fs_bytes img_upload) \<and>
   extract_text demo_server img_upload = Inr (str ''Jane Doe'') \<and>
   extract_text_from_pdf demo_server (fs_bytes img_upload)
     = Inl (PyExn LibraryError (str ''No /Root object! - Is this really a PDF?''))"
  by (simp add: demo_server_eval)

section \<open>The json model reads back what it writes\<close>

lemma hex_value_hex_digit: "d < 16 \<Longrightarrow> hex_value (hex_digit d) = Some d"
  by (auto simp: hex_value_def hex_digit_def)

lemma hex4_control:
  assumes "c < 32"
  shows "hex4 [48, 48, hex_digit (c div 16), hex_digit (c mod 16)] = Some c"
proof -
  from assms have "c div 16 < 16" "c mod 16 < 16" by simp_all
  then have "hex_value (hex_digit (c div 16)) = Some (c div 16)"
    "hex_value (hex_digit (c mod 16)) = Some (c mod 16)"
    by (simp_all add: hex_value_hex_digit)
  moreover have "hex_value 48 = Some 0" by (simp add: hex_value_def)
  ultimately show ?thesis by simp
qed

lemma scanstring_escape_char:
  "scanstring (escape_char c @ rest) = prepend c (scanstring rest)"
proof -
  consider "c = 34" | "c = 92" | "c = 10" | "c = 13" | "c = 9" | "c = 8" | "c = 12"
    | "c < 32" "c \<noteq> 10" "c \<noteq> 13" "c \<noteq> 9" "c \<noteq> 8" "c \<noteq> 12"
    | "32 \<le> c" "c \<noteq> 34" "c \<noteq> 92"
    by linarith
  then show ?thesis
  proof cases
    case 8
    then have e: "escape_char c = [92, 117, 48, 48, hex_digit (c div 16), hex_digit (c mod 16)]"
      by (simp add: escape_char_def)
    from 8 have "\<not> (55296 \<le> c)" by simp
    then show ?thesis
      unfolding e using hex4_control [OF 8(1)]
      by (simp add: scanstring.simps)
  next
    case 9
    then show ?thesis by (simp add: escape_char_def scanstring.simps)
  qed (simp_all add: escape_char_def scanstring.simps unescape_def)
qed

lemma scanstring_encoded:
  "scanstring (concat (map escape_char s) @ 34 # rest) = Some (s, rest)"
proof (induction s)
  case Nil
  show ?case by (simp add: scanstring.simps)
next
  case (Cons c s)
  have "scanstring (concat (map escape_char (c # s)) @ 34 # rest)
      = scanstring (escape_char c @ (concat (map escape_char s) @ 34 # rest))"
    by simp
  also have "\<dots> = prepend c (scanstring (concat (map escape_char s) @ 34 # rest))"
    by (rule scanstring_escape_char)
  also have "\<dots> = Some (c # s, rest)"
    by (simp add: Cons.IH prepend_def)
  finally show ?case .
qed


lemma skip_ws_simps:
  "skip_ws [] = []"
  "skip_ws (32 # s) = skip_ws s"
  "skip_ws (10 # s) = skip_ws s"
  "skip_ws (34 # s) = 34 # s"
  "skip_ws (44 # s) = 44 # s"
  "skip_ws (58 # s) = 58 # s"
  "skip_ws (123 # s) = 123 # s"
  "skip_ws (125 # s) = 125 # s"
  by (simp_all add: skip_ws_def)

lemma parse_member_step:
  "parse_members (Suc fuel) acc
     (encode_basestring k @ str '': '' @ encode_basestring v @ after) =
   (case skip_ws after of
      [] \<Rightarrow> None
    | d # s6 \<Rightarrow>
        if d = 125 then Some (dict_set acc k (JStr v), s6)
        else if d = 44 then parse_members fuel (dict_set acc k (JStr v)) (skip_ws s6)
        else None)"
  by (simp add: parse_members.simps encode_basestring_def scanstring_encoded skip_ws_simps)

lemma member_text_starts: "\<exists>r. member_text kv = 34 # r"
  by (simp add: member_text_def encode_basestring_def)

lemma py_join_Cons:
  "py_join sep (x # xs) = (if xs = [] then x else x @ sep @ py_join sep xs)"
  by (cases xs) simp_all

lemma py_join_members_starts:
  "kvs \<noteq> [] \<Longrightarrow> \<exists>r. py_join sep (map member_text kvs) = 34 # r"
proof (cases kvs)
  case Nil
  assume "kvs \<noteq> []"
  with Nil show ?thesis by simp
next
  case (Cons kv rest)
  obtain r where "member_text kv = 34 # r" using member_text_starts by blast
  with Cons show ?thesis by (simp add: py_join_Cons)
qed

lemma parse_members_printed:
  assumes "kvs \<noteq> []" and "length kvs \<le> fuel"
  shows "parse_members fuel acc
           (py_join [44, 10, 32, 32, 32, 32] (map member_text kvs) @ 10 # 125 # tail)
         = Some (foldl (\<lambda>a kv. dict_set a (fst kv) (JStr (snd kv))) acc kvs, tail)"
  using assms
proof (induction kvs arbitrary: fuel acc)
  case Nil
  then show ?case by simp
next
  case (Cons kv rest)
  from Cons.prems obtain f where fuel: "fuel = Suc f" and f: "length rest \<le> f"
    by (cases fuel) auto
  show ?case
  proof (cases "rest = []")
    case True
    have "parse_members (Suc f) acc
        (encode_basestring (fst kv) @ str '': '' @ encode_basestring (snd kv) @ (10 # 125 # tail))
        = Some (dict_set acc (fst kv) (JStr (snd kv)), tail)"
      unfolding parse_member_step by (simp add: skip_ws_simps)
    with True fuel show ?thesis by (simp add: member_text_def)
  next
    case False
    then obtain r where r: "py_join [44, 10, 32, 32, 32, 32] (map member_text rest) = 34 # r"
      using py_join_members_starts by blast
    have ih: "parse_members f (dict_set acc (fst kv) (JStr (snd kv)))
           (py_join [44, 10, 32, 32, 32, 32] (map member_text rest) @ 10 # 125 # tail)
         = Some (foldl (\<lambda>a kv. dict_set a (fst kv) (JStr (snd kv)))
                   (dict_set acc (fst kv) (JStr (snd kv))) rest, tail)"
      using Cons.IH [OF False f] .
    have "parse_members (Suc f) acc
        (encode_basestring (fst kv) @ str '': '' @ encode_basestring (snd kv) @
          ([44, 10, 32, 32, 32, 32] @
           py_join [44, 10, 32, 32, 32, 32] (map member_text rest) @ 10 # 125 # tail))
        = parse_members f (dict_set acc (fst kv) (JStr (snd kv)))
           (py_join [44, 10, 32, 32, 32, 32] (map member_text rest) @ 10 # 125 # tail)"
      unfolding parse_member_step by (simp add: skip_ws_simps r)
    moreover have "member_text kv
        = encode_basestring (fst kv) @ str '': '' @ encode_basestring (snd kv)"
      by (simp add: member_text_def)
    ultimately show ?thesis using ih False fuel by (simp add: py_join_Cons)
  qed
qed

lemma dict_set_new:
  "k \<notin> fst ` set acc \<Longrightarrow> dict_set acc k v = acc @ [(k, v)]"
  by (induction acc) auto

lemma foldl_dict_set_distinct:
  assumes "distinct (map fst kvs)" and "fst ` set kvs \<inter> fst ` set acc = {}"
  shows "foldl (\<lambda>a kv. dict_set a (fst kv) (JStr (snd kv))) acc kvs
         = acc @ map (\<lambda>(k, v). (k, JStr v)) kvs"
  using assms
proof (induction kvs arbitrary: acc)
  case Nil
  show ?case by simp
next
  case (Cons kv rest)
  from Cons.prems have new: "fst kv \<notin> fst ` set acc" by auto
  then have d: "dict_set acc (fst kv) (JStr (snd kv)) = acc @ [(fst kv, JStr (snd kv))]"
    by (rule dict_set_new)
  from Cons.prems have "distinct (map fst rest)"
    and "fst ` set rest \<inter> fst ` set (acc @ [(fst kv, JStr (snd kv))]) = {}"
    by auto
  from Cons.IH [OF this] d show ?case by (simp add: case_prod_beta)
qed

lemma length_py_join:
  "\<forall>x\<in>set xs. x \<noteq> [] \<Longrightarrow> length xs \<le> length (py_join sep xs)"
proof (induction sep xs rule: py_join.induct)
  case (2 sep x)
  then show ?case by (cases x) simp_all
next
  case (3 sep x y zs)
  then show ?case by (cases x) simp_all
qed simp

lemma loads_dumps_object:
  assumes "distinct (map fst kvs)"
  shows "loads_object (dumps_object kvs) = Some (map (\<lambda>(k, v). (k, JStr v)) kvs)"
proof (cases "kvs = []")
  case True
  then show ?thesis by (simp add: loads_object_def dumps_object_def skip_ws_simps)
next
  case False
  let ?members = "py_join [44, 10, 32, 32, 32, 32] (map member_text kvs)"
  have d: "dumps_object kvs = 123 # 10 # 32 # 32 # 32 # 32 # ?members @ [10, 125]"
    using False by (simp add: dumps_object_def)
  obtain r where r: "?members = 34 # r"
    using py_join_members_starts [OF False] by blast
  have "member_text kv \<noteq> []" for kv
    using member_text_starts [of kv] by auto
  then have "\<forall>x\<in>set (map member_text kvs). x \<noteq> []"
    by auto
  then have "length (map member_text kvs) \<le> length ?members"
    by (rule length_py_join)
  then have fuel: "length kvs \<le> length (dumps_object kvs)"
    unfolding d by simp
  have p: "parse_members (length (dumps_object kvs)) [] (?members @ 10 # 125 # [])
      = Some (foldl (\<lambda>a kv. dict_set a (fst kv) (JStr (snd kv))) [] kvs, [])"
    using False fuel by (rule parse_members_printed)
  have f: "foldl (\<lambda>a kv. dict_set a (fst kv) (JStr (snd kv))) [] kvs
      = map (\<lambda>(k, v). (k, JStr v)) kvs"
    using foldl_dict_set_distinct [OF assms, of "[]"] by simp
  have s1: "skip_ws (dumps_object kvs) = 123 # 10 # 32 # 32 # 32 # 32 # ?members @ [10, 125]"
    unfolding d by (simp add: skip_ws_simps)
  have s2: "skip_ws (10 # 32 # 32 # 32 # 32 # ?members @ [10, 125]) = 34 # r @ [10, 125]"
    by (simp add: skip_ws_simps r)
  have p': "parse_members (length (dumps_object kvs)) [] (34 # r @ [10, 125])
      = Some (map (\<lambda>(k, v). (k, JStr v)) kvs, [])"
    using p f r by simp
  show ?thesis
    unfolding loads_object_def s1 by (simp add: r p' skip_ws_simps)
qed

lemma string_pairs_of_strings:
  "string_pairs (map (\<lambda>(k, v). (k, JStr v)) kvs) = Some kvs"
  by (induction kvs) auto

lemma parse_members_no_quote: "c \<noteq> 34 \<Longrightarrow> parse_members fuel acc (c # s) = None"
  by (cases fuel) (simp_all add: parse_members.simps)

section \<open>Properties of the bot\<close>

subsection \<open>Memory\<close>

lemmas demo_bot_eval =
  demo_bot_def demo_load_def demo_dumps_def listed_load_def listed_dumps_def demo_docs_def
  loads_object_def skip_ws_def parse_members_no_quote entry_hi_def entry_hello_def
  entry_image_def entry_cat_def blue_memory_def entry_text_def
  demo_clock_def strftime_def zero_pad_def user_memory_path_def user_history_path_def
  str_of_int_def ascii_lower_def text_response_def digits.simps

text \<open>
  \<^bold>\<open>Claim C8.\<close> \<open>load_memory\<close> for a user without a memory file returns the empty
  mapping and does not raise. Let the json library write a \<open>dict\<close> of strings as
  \<open>dumps_object\<close> does and read every text that \<open>loads_object\<close> reads as \<open>loads_object\<close>
  does. Then for every mapping \<open>kvs\<close> from strings to strings (a list of pairs with
  distinct keys), \<open>save_memory\<close> followed by \<open>load_memory\<close> for the same user returns
  exactly the pairs of \<open>kvs\<close>, in their order.
\<close>

theorem memory_round_trip:
  assumes "\<forall>kvs. json_dumps env (JObj (map (\<lambda>(k, v). (k, JStr v)) kvs)) = dumps_object kvs"
    and "\<forall>t m. loads_object t = Some m \<longrightarrow> json_load env t = Inr (JObj m)"
  shows "(files w (user_memory_path user_id) = None \<longrightarrow>
           load_memory env user_id w = Inr (JObj [])) \<and>
         (distinct (map fst kvs) \<longrightarrow>
           load_memory env user_id
             (save_memory env user_id (JObj (map (\<lambda>(k, v). (k, JStr v)) kvs)) w)
           = Inr (JObj (map (\<lambda>(k, v). (k, JStr v)) kvs)))"
proof (intro conjI impI)
  assume "files w (user_memory_path user_id) = None"
  then show "load_memory env user_id w = Inr (JObj [])"
    by (simp add: load_memory_def)
next
  assume "distinct (map fst kvs)"
  then have "loads_object (dumps_object kvs) = Some (map (\<lambda>(k, v). (k, JStr v)) kvs)"
    by (rule loads_dumps_object)
  with assms(2) have "json_load env (dumps_object kvs) = Inr (JObj (map (\<lambda>(k, v). (k, JStr v)) kvs))"
    by blast
  with assms(1) show "load_memory env user_id
             (save_memory env user_id (JObj (map (\<lambda>(k, v). (k, JStr v)) kvs)) w)
           = Inr (JObj (map (\<lambda>(k, v). (k, JStr v)) kvs))"
    by (simp add: load_memory_def save_memory_def)
qed

text \<open>
  Claim C8 for user 42 and the concrete bot, whose codec is the modelled one on objects
  of strings: nothing stored at first, then two remembered pairs.
\<close>

theorem memory_round_trip_witness:
  "(\<forall>kvs. json_dumps demo_bot (JObj (map (\<lambda>(k, v). (k, JStr v)) kvs)) = dumps_object kvs) \<and>
   (\<forall>t. json_load demo_bot t =
      (case loads_object t of Some m \<Rightarrow> Inr (JObj m) | None \<Rightarrow> listed_load t)) \<and>
   files empty_world (user_memory_path 42) = None \<and>
   load_memory demo_bot 42 empty_world = Inr (JObj []) \<and>
   distinct (map fst [(str ''favorite_color'', str ''blue''), (str ''city'', str ''Pune'')]) \<and>
   load_memory demo_bot 42
     (save_memory demo_bot 42
        (JObj [(str ''favorite_color'', JStr (str ''blue'')), (str ''city'', JStr (str ''Pune''))])
        empty_world)
     = Inr (JObj [(str ''favorite_color'', JStr (str ''blue'')), (str ''city'', JStr (str ''Pune''))])"
proof -
  have d: "\<forall>kvs. json_dumps demo_bot (JObj (map (\<lambda>(k, v). (k, JStr v)) kvs)) = dumps_object kvs"
    by (simp add: demo_bot_def demo_dumps_def string_pairs_of_strings)
  have l: "\<forall>t m. loads_object t = Some m \<longrightarrow> json_load demo_bot t = Inr (JObj m)"
    by (simp add: demo_bot_def demo_load_def)
  have a: "files empty_world (user_memory_path 42) = None"
    by (simp add: empty_world_def)
  have k: "distinct (map fst [(str ''favorite_color'', str ''blue''), (str ''city'', str ''Pune'')])"
    by simp
  note T = memory_round_trip [OF d l, of empty_world 42
      "[(str ''favorite_color'', str ''blue''), (str ''city'', str ''Pune'')]"]
  have r1: "load_memory demo_bot 42 empty_world = Inr (JObj [])"
    using T a by blast
  have "load_memory demo_bot 42
     (save_memory demo_bot 42
        (JObj (map (\<lambda>(k, v). (k, JStr v))
           [(str ''favorite_color'', str ''blue''), (str ''city'', str ''Pune'')]))
        empty_world)
     = Inr (JObj (map (\<lambda>(k, v). (k, JStr v))
           [(str ''favorite_color'', str ''blue''), (str ''city'', str ''Pune'')]))"
    using T k by blast
  then have r2: "load_memory demo_bot 42
     (save_memory demo_bot 42
        (JObj [(str ''favorite_color'', JStr (str ''blue'')), (str ''city'', JStr (str ''Pune''))])
        empty_world)
     = Inr (JObj [(str ''favorite_color'', JStr (str ''blue'')), (str ''city'', JStr (str ''Pune''))])"
    by simp
  have l': "\<forall>t. json_load demo_bot t =
      (case loads_object t of Some m \<Rightarrow> Inr (JObj m) | None \<Rightarrow> listed_load t)"
    by (simp add: demo_bot_def demo_load_def)
  from d l' a r1 k r2 show ?thesis by blast
qed

subsection \<open>History\<close>

lemma save_history_fresh:
  assumes "files w (user_history_path user_id) = None"
  shows "save_history env user_id sender message w =
    (Done, w\<lparr>clock_reads := Suc (clock_reads w),
              files := (files w)(user_history_path user_id \<mapsto>
                json_dumps env (JArr [history_entry (strftime (clock env (clock_reads w)))
                  sender message]))\<rparr>)"
  using assms by (simp add: save_history_def Let_def)

lemma save_history_unparseable:
  assumes "files w (user_history_path user_id) = Some f"
    and "json_load env f = Inl e" and "exn_class e = JSONDecodeError"
  shows "save_history env user_id sender message w =
    (Done, w\<lparr>clock_reads := Suc (clock_reads w),
              files := (files w)(user_history_path user_id \<mapsto>
                json_dumps env (JArr [history_entry (strftime (clock env (clock_reads w)))
                  sender message]))\<rparr>)"
  using assms by (simp add: save_history_def Let_def)

lemma save_history_existing:
  assumes "files w (user_history_path user_id) = Some f"
    and "json_load env f = Inr (JArr history)"
  shows "save_history env user_id sender message w =
    (Done, w\<lparr>clock_reads := Suc (clock_reads w),
              files := (files w)(user_history_path user_id \<mapsto>
                json_dumps env (JArr (history @
                  [history_entry (strftime (clock env (clock_reads w))) sender message])))\<rparr>)"
  using assms by (simp add: save_history_def Let_def)

lemma save_history_twice:
  assumes "save_history env user_id sender1 message1 w =
      (Done, w\<lparr>clock_reads := Suc (clock_reads w),
              files := (files w)(user_history_path user_id \<mapsto>
                json_dumps env (JArr (history @ [e1])))\<rparr>)"
    and "json_load env (json_dumps env (JArr (history @ [e1]))) = Inr (JArr (history @ [e1]))"
  shows "and_then (save_history env user_id sender1 message1 w)
           (save_history env user_id sender2 message2) =
    (Done, w\<lparr>clock_reads := Suc (Suc (clock_reads w)),
              files := (files w)(user_history_path user_id \<mapsto>
                json_dumps env (JArr (history @ [e1,
                  history_entry (strftime (clock env (Suc (clock_reads w)))) sender2 message2])))\<rparr>)"
proof -
  let ?w1 = "w\<lparr>clock_reads := Suc (clock_reads w),
              files := (files w)(user_history_path user_id \<mapsto>
                json_dumps env (JArr (history @ [e1])))\<rparr>"
  have "files ?w1 (user_history_path user_id) = Some (json_dumps env (JArr (history @ [e1])))"
    by simp
  from save_history_existing [OF this assms(2), of sender2 message2]
  show ?thesis by (simp add: and_then_def assms(1))
qed

text \<open>
  \<^bold>\<open>Claim C7\<close>, as amended. \<open>save_history\<close> takes the user's existing sequence to be
  empty when there is no history file and when \<open>json.load\<close> rejects the file with a
  \<open>JSONDecodeError\<close>, and to be the stored list when the file holds one; it then returns
  normally, having read the clock once, appended exactly one entry (the timestamp of
  that reading, the sender and the message) and rewritten the file with the whole
  sequence. Consequently, starting without a history file and with a codec that reads
  the first document back as written, two calls in a row leave a two-element sequence:
  the entry of the first call, then the entry of the second, each with its own sender
  and message. Any other exception of \<open>json.load\<close> is not caught: it propagates and the
  file is left as it was.
\<close>

theorem save_history_appends_one_entry:
  "(files w (user_history_path user_id) = None \<longrightarrow>
      save_history env user_id sender message w =
        (Done, w\<lparr>clock_reads := Suc (clock_reads w),
                  files := (files w)(user_history_path user_id \<mapsto>
                    json_dumps env (JArr [history_entry (strftime (clock env (clock_reads w)))
                      sender message]))\<rparr>)) \<and>
   (\<forall>f e. files w (user_history_path user_id) = Some f \<and> json_load env f = Inl e \<and>
          exn_class e = JSONDecodeError \<longrightarrow>
      save_history env user_id sender message w =
        (Done, w\<lparr>clock_reads := Suc (clock_reads w),
                  files := (files w)(user_history_path user_id \<mapsto>
                    json_dumps env (JArr [history_entry (strftime (clock env (clock_reads w)))
                      sender message]))\<rparr>)) \<and>
   (\<forall>f history. files w (user_history_path user_id) = Some f \<and>
          json_load env f = Inr (JArr history) \<longrightarrow>
      save_history env user_id sender message w =
        (Done, w\<lparr>clock_reads := Suc (clock_reads w),
                  files := (files w)(user_history_path user_id \<mapsto>
                    json_dumps env (JArr (history @
                      [history_entry (strftime (clock env (clock_reads w))) sender message])))\<rparr>)) \<and>
   (files w (user_history_path user_id) = None \<and>
    json_load env (json_dumps env (JArr [history_entry (strftime (clock env (clock_reads w)))
        sender message]))
      = Inr (JArr [history_entry (strftime (clock env (clock_reads w))) sender message]) \<longrightarrow>
      and_then (save_history env user_id sender message w)
          (save_history env user_id sender2 message2) =
        (Done, w\<lparr>clock_reads := Suc (Suc (clock_reads w)),
                  files := (files w)(user_history_path user_id \<mapsto>
                    json_dumps env (JArr
                      [history_entry (strftime (clock env (clock_reads w))) sender message,
                       history_entry (strftime (clock env (Suc (clock_reads w))))
                         sender2 message2]))\<rparr>)) \<and>
   (\<forall>f e. files w (user_history_path user_id) = Some f \<and> json_load env f = Inl e \<and>
          exn_class e \<noteq> JSONDecodeError \<longrightarrow>
      save_history env user_id sender message w =
        (Raised e, w\<lparr>clock_reads := Suc (clock_reads w)\<rparr>))"
proof (intro conjI allI impI)
  assume "files w (user_history_path user_id) = None"
  then show "save_history env user_id sender message w =
        (Done, w\<lparr>clock_reads := Suc (clock_reads w),
                  files := (files w)(user_history_path user_id \<mapsto>
                    json_dumps env (JArr [history_entry (strftime (clock env (clock_reads w)))
                      sender message]))\<rparr>)"
    by (rule save_history_fresh)
next
  fix f e
  assume "files w (user_history_path user_id) = Some f \<and> json_load env f = Inl e \<and>
          exn_class e = JSONDecodeError"
  then show "save_history env user_id sender message w =
        (Done, w\<lparr>clock_reads := Suc (clock_reads w),
                  files := (files w)(user_history_path user_id \<mapsto>
                    json_dumps env (JArr [history_entry (strftime (clock env (clock_reads w)))
                      sender message]))\<rparr>)"
    using save_history_unparseable by blast
next
  fix f history
  assume "files w (user_history_path user_id) = Some f \<and> json_load env f = Inr (JArr history)"
  then show "save_history env user_id sender message w =
        (Done, w\<lparr>clock_reads := Suc (clock_reads w),
                  files := (files w)(user_history_path user_id \<mapsto>
                    json_dumps env (JArr (history @
                      [history_entry (strftime (clock env (clock_reads w))) sender message])))\<rparr>)"
    using save_history_existing by blast
next
  assume a: "files w (user_history_path user_id) = None \<and>
    json_load env (json_dumps env (JArr [history_entry (strftime (clock env (clock_reads w)))
        sender message]))
      = Inr (JArr [history_entry (strftime (clock env (clock_reads w))) sender message])"
  from a have "save_history env user_id sender message w =
      (Done, w\<lparr>clock_reads := Suc (clock_reads w),
              files := (files w)(user_history_path user_id \<mapsto>
                json_dumps env (JArr ([] @ [history_entry (strftime (clock env (clock_reads w)))
                      sender message])))\<rparr>)"
    by (simp add: save_history_fresh)
  from save_history_twice [OF this, of sender2 message2] a
  show "and_then (save_history env user_id sender message w)
          (save_history env user_id sender2 message2) =
        (Done, w\<lparr>clock_reads := Suc (Suc (clock_reads w)),
                  files := (files w)(user_history_path user_id \<mapsto>
                    json_dumps env (JArr
                      [history_entry (strftime (clock env (clock_reads w))) sender message,
                       history_entry (strftime (clock env (Suc (clock_reads w))))
                         sender2 message2]))\<rparr>)"
    by simp
next
  fix f e
  assume "files w (user_history_path user_id) = Some f \<and> json_load env f = Inl e \<and>
          exn_class e \<noteq> JSONDecodeError"
  then show "save_history env user_id sender message w =
        (Raised e, w\<lparr>clock_reads := Suc (clock_reads w)\<rparr>)"
    by (simp add: save_history_def Let_def)
qed

text \<open>The entries and documents of the concrete bot.\<close>

lemma demo_entries:
  "history_entry (strftime (clock demo_bot (clock_reads empty_world))) (str ''You'') (str ''hi'')
     = entry_hi"
  "history_entry (strftime (clock demo_bot (Suc (clock_reads empty_world)))) (str ''AI'')
     (str ''Hello'') = entry_hello"
  "history_entry (strftime (clock demo_bot (clock_reads hi_world))) (str ''AI'') (str ''Hello'')
     = entry_hello"
  "history_entry (strftime (clock demo_bot (clock_reads corrupt_history_world))) (str ''You'')
     (str ''hi'') = entry_hi"
  "history_entry (strftime (clock demo_bot (clock_reads empty_world))) (str ''You (image)'')
     (str ''[Image]'') = entry_image"
  "history_entry (strftime (clock demo_bot (Suc (clock_reads empty_world)))) (str ''AI'')
     (str ''A cat'') = entry_cat"
  by (simp_all add: demo_bot_eval empty_world_def hi_world_def corrupt_history_world_def)

lemma demo_codec:
  "json_load demo_bot (json_dumps demo_bot (JArr [entry_hi])) = Inr (JArr [entry_hi])"
  "json_load demo_bot (json_dumps demo_bot (JArr [entry_hi, entry_hello]))
     = Inr (JArr [entry_hi, entry_hello])"
  "json_load demo_bot (json_dumps demo_bot (JArr [entry_image])) = Inr (JArr [entry_image])"
  "json_load demo_bot (str ''{not json'') = Inl (PyExn JSONDecodeError (str ''Expecting value''))"
  by (simp_all add: demo_bot_eval)

text \<open>
  The amended claim for user 42: a first message without a history file, the same
  message over a file that is not JSON, a reply appended to a stored sequence, two calls
  in a row, and a file that the library cannot decode.
\<close>

theorem save_history_appends_one_entry_witness:
  "files empty_world (user_history_path 42) = None \<and>
   fst (save_history demo_bot 42 (str ''You'') (str ''hi'') empty_world) = Done \<and>
   files (snd (save_history demo_bot 42 (str ''You'') (str ''hi'') empty_world))
     (user_history_path 42) = Some (json_dumps demo_bot (JArr [entry_hi])) \<and>
   files corrupt_history_world (user_history_path 42) = Some (str ''{not json'') \<and>
   json_load demo_bot (str ''{not json'') = Inl (PyExn JSONDecodeError (str ''Expecting value'')) \<and>
   fst (save_history demo_bot 42 (str ''You'') (str ''hi'') corrupt_history_world) = Done \<and>
   files (snd (save_history demo_bot 42 (str ''You'') (str ''hi'') corrupt_history_world))
     (user_history_path 42) = Some (json_dumps demo_bot (JArr [entry_hi])) \<and>
   files hi_world (user_history_path 42) = Some (json_dumps demo_bot (JArr [entry_hi])) \<and>
   json_load demo_bot (json_dumps demo_bot (JArr [entry_hi])) = Inr (JArr [entry_hi]) \<and>
   fst (save_history demo_bot 42 (str ''AI'') (str ''Hello'') hi_world) = Done \<and>
   files (snd (save_history demo_bot 42 (str ''AI'') (str ''Hello'') hi_world))
     (user_history_path 42) = Some (json_dumps demo_bot (JArr [entry_hi, entry_hello])) \<and>
   fst (and_then (save_history demo_bot 42 (str ''You'') (str ''hi'') empty_world)
          (save_history demo_bot 42 (str ''AI'') (str ''Hello''))) = Done \<and>
   files (snd (and_then (save_history demo_bot 42 (str ''You'') (str ''hi'') empty_world)
                 (save_history demo_bot 42 (str ''AI'') (str ''Hello''))))
     (user_history_path 42) = Some (json_dumps demo_bot (JArr [entry_hi, entry_hello])) \<and>
   json_load demo_bot (json_dumps demo_bot (JArr [entry_hi, entry_hello]))
     = Inr (JArr [entry_hi, entry_hello]) \<and>
   json_load undecodable_bot (str ''{not json'')
     = Inl (PyExn UnicodeDecodeError (str ''invalid start byte'')) \<and>
   save_history undecodable_bot 42 (str ''You'') (str ''hi'') corrupt_history_world
     = (Raised (PyExn UnicodeDecodeError (str ''invalid start byte'')),
        corrupt_history_world\<lparr>clock_reads := Suc (clock_reads corrupt_history_world)\<rparr>)"
proof -
  have a: "files empty_world (user_history_path 42) = None"
    by (simp add: empty_world_def)
  have b: "files corrupt_history_world (user_history_path 42) = Some (str ''{not json'')"
    by (simp add: corrupt_history_world_def)
  have c: "files hi_world (user_history_path 42) = Some (json_dumps demo_bot (JArr [entry_hi]))"
    by (simp add: hi_world_def demo_bot_def)
  have k: "exn_class (PyExn JSONDecodeError (str ''Expecting value'')) = JSONDecodeError"
    by simp
  note A = save_history_appends_one_entry [of empty_world 42 demo_bot "str ''You''" "str ''hi''"
      "str ''AI''" "str ''Hello''", unfolded demo_entries]
  note B = save_history_appends_one_entry [of corrupt_history_world 42 demo_bot "str ''You''"
      "str ''hi''" "str ''AI''" "str ''Hello''", unfolded demo_entries]
  note C = save_history_appends_one_entry [of hi_world 42 demo_bot "str ''AI''" "str ''Hello''"
      "str ''AI''" "str ''Hello''", unfolded demo_entries]
  have r1: "save_history demo_bot 42 (str ''You'') (str ''hi'') empty_world =
      (Done, empty_world\<lparr>clock_reads := Suc (clock_reads empty_world),
         files := (files empty_world)(user_history_path 42 \<mapsto>
           json_dumps demo_bot (JArr [entry_hi]))\<rparr>)"
    using A a by blast
  have r2: "save_history demo_bot 42 (str ''You'') (str ''hi'') corrupt_history_world =
      (Done, corrupt_history_world\<lparr>clock_reads := Suc (clock_reads corrupt_history_world),
         files := (files corrupt_history_world)(user_history_path 42 \<mapsto>
           json_dumps demo_bot (JArr [entry_hi]))\<rparr>)"
    using B b demo_codec(4) k by blast
  have r3: "save_history demo_bot 42 (str ''AI'') (str ''Hello'') hi_world =
      (Done, hi_world\<lparr>clock_reads := Suc (clock_reads hi_world),
         files := (files hi_world)(user_history_path 42 \<mapsto>
           json_dumps demo_bot (JArr ([entry_hi] @ [entry_hello])))\<rparr>)"
    using C c demo_codec(1) by blast
  have r4: "and_then (save_history demo_bot 42 (str ''You'') (str ''hi'') empty_world)
          (save_history demo_bot 42 (str ''AI'') (str ''Hello'')) =
      (Done, empty_world\<lparr>clock_reads := Suc (Suc (clock_reads empty_world)),
         files := (files empty_world)(user_history_path 42 \<mapsto>
           json_dumps demo_bot (JArr [entry_hi, entry_hello]))\<rparr>)"
    using A a demo_codec(1) by blast
  have s1: "fst (save_history demo_bot 42 (str ''You'') (str ''hi'') empty_world) = Done \<and>
   files (snd (save_history demo_bot 42 (str ''You'') (str ''hi'') empty_world))
     (user_history_path 42) = Some (json_dumps demo_bot (JArr [entry_hi]))"
    unfolding r1 by simp
  have s2: "fst (save_history demo_bot 42 (str ''You'') (str ''hi'') corrupt_history_world) = Done \<and>
   files (snd (save_history demo_bot 42 (str ''You'') (str ''hi'') corrupt_history_world))
     (user_history_path 42) = Some (json_dumps demo_bot (JArr [entry_hi]))"
    unfolding r2 by simp
  have s3: "fst (save_history demo_bot 42 (str ''AI'') (str ''Hello'') hi_world) = Done \<and>
   files (snd (save_history demo_bot 42 (str ''AI'') (str ''Hello'') hi_world))
     (user_history_path 42) = Some (json_dumps demo_bot (JArr [entry_hi, entry_hello]))"
    unfolding r3 by simp
  have s4: "fst (and_then (save_history demo_bot 42 (str ''You'') (str ''hi'') empty_world)
          (save_history demo_bot 42 (str ''AI'') (str ''Hello''))) = Done \<and>
   files (snd (and_then (save_history demo_bot 42 (str ''You'') (str ''hi'') empty_world)
                 (save_history demo_bot 42 (str ''AI'') (str ''Hello''))))
     (user_history_path 42) = Some (json_dumps demo_bot (JArr [entry_hi, entry_hello]))"
    unfolding r4 by simp
  have ul: "json_load undecodable_bot (str ''{not json'')
     = Inl (PyExn UnicodeDecodeError (str ''invalid start byte''))"
    by (simp add: undecodable_bot_def)
  have uk: "exn_class (PyExn UnicodeDecodeError (str ''invalid start byte'')) \<noteq> JSONDecodeError"
    by simp
  have s5: "save_history undecodable_bot 42 (str ''You'') (str ''hi'') corrupt_history_world
     = (Raised (PyExn UnicodeDecodeError (str ''invalid start byte'')),
        corrupt_history_world\<lparr>clock_reads := Suc (clock_reads corrupt_history_world)\<rparr>)"
    using save_history_appends_one_entry [of corrupt_history_world 42 undecodable_bot
        "str ''You''" "str ''hi''"] b ul uk
    by blast
  from a s1 b demo_codec(4) s2 c demo_codec(1) s3 s4 demo_codec(2) ul s5 show ?thesis by blast
qed

text \<open>
  A history file that parses to something other than a list is not treated as empty:
  \<open>history.append\<close> raises.
\<close>

lemma save_history_needs_a_list:
  assumes "files w (user_history_path user_id) = Some f"
    and "json_load env f = Inr (JObj kvs)"
  shows "save_history env user_id sender message w =
    (Raised (PyExn AttributeError (no_attribute (str ''dict'') (str ''append''))),
     w\<lparr>clock_reads := Suc (clock_reads w)\<rparr>)"
  using assms by (simp add: save_history_def Let_def)

text \<open>
  Claim C7 as stated fails: not every corrupt or unparseable record is taken as empty.
  A history file that holds a JSON object makes \<open>save_history\<close> raise an
  \<open>AttributeError\<close>, and a file that cannot be decoded makes it raise the
  \<open>UnicodeDecodeError\<close> of \<open>json.load\<close>; in both cases no entry is appended.
\<close>

theorem corrupt_history_can_raise:
  "files object_history_world (user_history_path 42)
     = Some (dumps_object [(str ''favorite_color'', str ''blue'')]) \<and>
   json_load demo_bot (dumps_object [(str ''favorite_color'', str ''blue'')])
     = Inr (JObj [(str ''favorite_color'', JStr (str ''blue''))]) \<and>
   save_history demo_bot 42 (str ''You'') (str ''hi'') object_history_world
     = (Raised (PyExn AttributeError (no_attribute (str ''dict'') (str ''append''))),
        object_history_world\<lparr>clock_reads := 1\<rparr>) \<and>
   files corrupt_history_world (user_history_path 42) = Some (str ''{not json'') \<and>
   json_load undecodable_bot (str ''{not json'')
     = Inl (PyExn UnicodeDecodeError (str ''invalid start byte'')) \<and>
   save_history undecodable_bot 42 (str ''You'') (str ''hi'') corrupt_history_world
     = (Raised (PyExn UnicodeDecodeError (str ''invalid start byte'')),
        corrupt_history_world\<lparr>clock_reads := 1\<rparr>)"
proof -
  have f: "files object_history_world (user_history_path 42)
     = Some (dumps_object [(str ''favorite_color'', str ''blue'')])"
    by (simp add: object_history_world_def)
  have "loads_object (dumps_object [(str ''favorite_color'', str ''blue'')])
     = Some (map (\<lambda>(k, v). (k, JStr v)) [(str ''favorite_color'', str ''blue'')])"
    by (rule loads_dumps_object) simp
  then have l: "json_load demo_bot (dumps_object [(str ''favorite_color'', str ''blue'')])
     = Inr (JObj [(str ''favorite_color'', JStr (str ''blue''))])"
    by (simp add: demo_bot_def demo_load_def)
  have r: "save_history demo_bot 42 (str ''You'') (str ''hi'') object_history_world
     = (Raised (PyExn AttributeError (no_attribute (str ''dict'') (str ''append''))),
        object_history_world\<lparr>clock_reads := 1\<rparr>)"
    using save_history_needs_a_list [OF f l, of "str ''You''" "str ''hi''"]
    by (simp add: object_history_world_def)
  have g: "files corrupt_history_world (user_history_path 42) = Some (str ''{not json'')"
    by (simp add: corrupt_history_world_def)
  have u: "json_load undecodable_bot (str ''{not json'')
     = Inl (PyExn UnicodeDecodeError (str ''invalid start byte''))"
    by (simp add: undecodable_bot_def)
  have "save_history undecodable_bot 42 (str ''You'') (str ''hi'') corrupt_history_world
     = (Raised (PyExn UnicodeDecodeError (str ''invalid start byte'')),
        corrupt_history_world\<lparr>clock_reads := Suc (clock_reads corrupt_history_world)\<rparr>)"
    using g u by (simp add: save_history_def Let_def)
  then have v: "save_history undecodable_bot 42 (str ''You'') (str ''hi'') corrupt_history_world
     = (Raised (PyExn UnicodeDecodeError (str ''invalid start byte'')),
        corrupt_history_world\<lparr>clock_reads := 1\<rparr>)"
    by (simp add: corrupt_history_world_def)
  from f l r g u v show ?thesis by blast
qed

subsection \<open>A corrupt memory file\<close>

text \<open>
  \<^bold>\<open>Claim C10.\<close> When the memory file of a user exists and \<open>json.load\<close> raises on it,
  \<open>load_memory\<close> raises the same exception. \<open>/memory\<close> then fails with that exception
  and replies nothing. \<open>/remember\<close> with a \<open>key=value\<close> argument fails with it as well;
  without an \<open>=\<close> it answers with the usage text before the memory is read. In every
  case \<open>/remember\<close> leaves all files as they were. By contrast \<open>save_history\<close> returns
  normally on a history file with the same unparseable content.
\<close>

theorem corrupt_memory_fails_commands:
  assumes "files w (user_memory_path (from_user_id upd)) = Some f"
    and "json_load env f = Inl e"
  shows "load_memory env (from_user_id upd) w = Inl e \<and>
         memory_cmd env upd w = (Raised e, w) \<and>
         remember env upd w =
           (if 61 \<in> set (replace_first (str ''/remember '') [] (msg_text upd))
            then (Raised e, w)
            else reply env (str ''Use format: /remember key=value'') w) \<and>
         files (snd (remember env upd w)) = files w \<and>
         (\<forall>w' sender message.
            files w' (user_history_path (from_user_id upd)) = Some f \<and>
            exn_class e = JSONDecodeError \<longrightarrow>
            fst (save_history env (from_user_id upd) sender message w') = Done)"
proof -
  have l: "load_memory env (from_user_id upd) w = Inl e"
    using assms by (simp add: load_memory_def)
  have m: "memory_cmd env upd w = (Raised e, w)"
    using l by (simp add: memory_cmd_def)
  have r: "remember env upd w =
           (if 61 \<in> set (replace_first (str ''/remember '') [] (msg_text upd))
            then (Raised e, w)
            else reply env (str ''Use format: /remember key=value'') w)"
    using l by (simp add: remember_def Let_def)
  have f: "files (snd (remember env upd w)) = files w"
    unfolding r by (simp add: reply_def Let_def split: option.splits)
  have h: "\<forall>w' sender message.
            files w' (user_history_path (from_user_id upd)) = Some f \<and>
            exn_class e = JSONDecodeError \<longrightarrow>
            fst (save_history env (from_user_id upd) sender message w') = Done"
    using assms(2) by (simp add: save_history_unparseable)
  from l m r f h show ?thesis by blast
qed

text \<open>Claim C10 for user 42, whose memory file holds \<open>{not json\<close>.\<close>

theorem corrupt_memory_fails_commands_witness:
  "files corrupt_memory_world (user_memory_path 42) = Some (str ''{not json'') \<and>
   json_load demo_bot (str ''{not json'') = Inl (PyExn JSONDecodeError (str ''Expecting value'')) \<and>
   load_memory demo_bot 42 corrupt_memory_world
     = Inl (PyExn JSONDecodeError (str ''Expecting value'')) \<and>
   memory_cmd demo_bot memory_update corrupt_memory_world
     = (Raised (PyExn JSONDecodeError (str ''Expecting value'')), corrupt_memory_world) \<and>
   remember demo_bot remember_update corrupt_memory_world
     = (Raised (PyExn JSONDecodeError (str ''Expecting value'')), corrupt_memory_world) \<and>
   remember demo_bot remember_usage_update corrupt_memory_world
     = (Done, corrupt_memory_world\<lparr>replied := [str ''Use format: /remember key=value'']\<rparr>) \<and>
   files (snd (remember demo_bot remember_update corrupt_memory_world))
     = files corrupt_memory_world \<and>
   files (snd (remember demo_bot remember_usage_update corrupt_memory_world))
     = files corrupt_memory_world \<and>
   files corrupt_history_world (user_history_path 42) = Some (str ''{not json'') \<and>
   fst (save_history demo_bot 42 (str ''You'') (str ''hi'') corrupt_history_world) = Done"
proof -
  have u: "from_user_id memory_update = 42" "from_user_id remember_update = 42"
    "from_user_id remember_usage_update = 42"
    by (simp_all add: memory_update_def remember_update_def remember_usage_update_def)
  have a: "files corrupt_memory_world (user_memory_path 42) = Some (str ''{not json'')"
    by (simp add: corrupt_memory_world_def)
  have c1: "61 \<in> set (replace_first (str ''/remember '') [] (msg_text remember_update))"
    by (simp add: remember_update_def)
  have c2: "61 \<notin> set (replace_first (str ''/remember '') [] (msg_text remember_usage_update))"
    by (simp add: remember_usage_update_def)
  have rp: "reply demo_bot (str ''Use format: /remember key=value'') corrupt_memory_world
      = (Done, corrupt_memory_world\<lparr>replied := [str ''Use format: /remember key=value'']\<rparr>)"
    by (simp add: reply_def demo_bot_def corrupt_memory_world_def)
  note A = corrupt_memory_fails_commands [of corrupt_memory_world memory_update _ demo_bot,
      unfolded u, OF a demo_codec(4)]
  note B = corrupt_memory_fails_commands [of corrupt_memory_world remember_update _ demo_bot,
      unfolded u, OF a demo_codec(4)]
  note C = corrupt_memory_fails_commands [of corrupt_memory_world remember_usage_update _ demo_bot,
      unfolded u, OF a demo_codec(4)]
  have h0: "files corrupt_history_world (user_history_path 42) = Some (str ''{not json'')"
    by (simp add: corrupt_history_world_def)
  have k: "exn_class (PyExn JSONDecodeError (str ''Expecting value'')) = JSONDecodeError"
    by simp
  have s3: "fst (save_history demo_bot 42 (str ''You'') (str ''hi'') corrupt_history_world) = Done"
    using A h0 k by blast
  have s1: "remember demo_bot remember_update corrupt_memory_world
     = (Raised (PyExn JSONDecodeError (str ''Expecting value'')), corrupt_memory_world)"
    using B c1 by (simp only: if_True)
  have s2: "remember demo_bot remember_usage_update corrupt_memory_world
     = (Done, corrupt_memory_world\<lparr>replied := [str ''Use format: /remember key=value'']\<rparr>)"
    using C c2 rp by (simp only: if_False)
  from a demo_codec(4) A B C s1 s2 s3 h0 show ?thesis by blast
qed

subsection \<open>The text relayed to the user\<close>

text \<open>
  The two loops that collect the text of a response, in closed form: without a \<open>None\<close>
  on the way they append every text-bearing part, and with one they raise.
\<close>

lemma add_part_texts_concat: "add_part_texts acc parts = acc @ all_part_texts parts"
  by (induction parts arbitrary: acc) (auto simp: all_part_texts_def split: option.splits)

lemma add_candidate_texts_all:
  assumes "\<forall>c\<in>set cands. candidate_parts c \<noteq> None"
  shows "add_candidate_texts acc cands = Inr (acc @ concat (map candidate_texts cands))"
  using assms
  by (induction cands arbitrary: acc)
    (auto simp: candidate_parts_def candidate_texts_def add_part_texts_concat
      split: option.splits)

lemma add_candidate_texts_raises:
  assumes "\<exists>c\<in>set cands. candidate_parts c = None"
  shows "\<exists>e. add_candidate_texts acc cands = Inl e"
  using assms
  by (induction cands arbitrary: acc)
    (auto simp: candidate_parts_def split: option.splits)

lemma apology_not_empty: "apology \<noteq> []"
  by (simp add: apology_def)

lemma replied_save_history:
  "replied (snd (save_history env user_id sender message w)) = replied w"
  by (auto simp: save_history_def Let_def split: option.splits sum.splits json.splits)

lemma replied_reply: "replied (snd (reply env t w)) = replied w @ [t]"
  by (auto simp: reply_def Let_def split: option.splits)

lemma replied_and_then_saves:
  "replied (snd (and_then (reply env t w) (\<lambda>w1.
      and_then (save_history env user_id s1 m1 w1) (save_history env user_id s2 m2))))
   = replied w @ [t]"
proof (cases "reply env t w")
  case (Pair out w1)
  then have w1: "replied w1 = replied w @ [t]"
    using replied_reply [of env t w] by simp
  show ?thesis
  proof (cases out)
    case Done
    obtain o2 w2 where s: "save_history env user_id s1 m1 w1 = (o2, w2)"
      by (cases "save_history env user_id s1 m1 w1")
    then have w2: "replied w2 = replied w1"
      using replied_save_history [of env user_id s1 m1 w1] by simp
    show ?thesis
      using Pair Done s w1 w2 replied_save_history [of env user_id s2 m2 w2]
      by (cases o2) (simp_all add: and_then_def)
  next
    case (Raised e)
    with Pair w1 show ?thesis by (simp add: and_then_def)
  qed
qed

lemma chat_relays:
  assumes "lower env (msg_text upd) \<noteq> str ''/stop''"
    and "load_memory env (from_user_id upd) w = Inr (JObj kvs)"
    and "send_message env (msg_text upd @ memory_block env kvs) = Inr r"
    and "resp_parts r = Some parts"
  shows "replied (snd (chat env upd w)) = replied w @ [all_part_texts parts]"
  using assms
  by (simp add: chat_def Let_def memory_items_def replied_and_then_saves add_part_texts_concat)

lemma handle_photo_relays:
  assumes "load_memory env (from_user_id upd) w = Inr (JObj kvs)"
    and "msg_photo upd \<noteq> []"
    and "download_to_memory env (last (msg_photo upd)) = Inr image_bytes"
    and "generate_with_image env image_bytes
           (photo_prompt env (case msg_caption upd of None \<Rightarrow> [] | Some c \<Rightarrow> c) kvs) = Inr r"
  shows "replied (snd (handle_photo env upd w)) = replied w @ [photo_ai_text r]"
  using assms
  by (simp add: handle_photo_def Let_def memory_items_def replied_and_then_saves)

text \<open>
  \<^bold>\<open>Claim C4, as amended.\<close> The text that \<open>handle_photo\<close> passes to \<open>reply_text\<close> is
  \<open>photo_ai_text\<close> of the response:

  \<^item> the top-level text of the response when that is not empty;

  \<^item> otherwise the apology, which is not empty, when \<open>response.candidates\<close> is \<open>None\<close> or
    some candidate has no content or no parts, so that walking them raises;

  \<^item> otherwise the concatenation of every text-bearing part of every candidate, when
    that is not empty.

  The text that \<open>chat\<close> passes to \<open>reply_text\<close> is the concatenation of the text-bearing
  parts of \<open>reply.parts\<close>, empty or not: \<open>chat\<close> neither looks at a top-level text nor
  substitutes the apology.
\<close>

theorem reply_text_cases:
  "(\<forall>t. resp_text r = Some t \<and> t \<noteq> [] \<longrightarrow> photo_ai_text r = t) \<and>
   ((resp_text r = None \<or> resp_text r = Some []) \<and> resp_candidates r = None \<longrightarrow>
      photo_ai_text r = apology) \<and>
   (\<forall>cands. (resp_text r = None \<or> resp_text r = Some []) \<and> resp_candidates r = Some cands \<and>
      (\<exists>c\<in>set cands. candidate_parts c = None) \<longrightarrow>
      photo_ai_text r = apology) \<and>
   (\<forall>cands. (resp_text r = None \<or> resp_text r = Some []) \<and> resp_candidates r = Some cands \<and>
      (\<forall>c\<in>set cands. candidate_parts c \<noteq> None) \<and>
      concat (map candidate_texts cands) \<noteq> [] \<longrightarrow>
      photo_ai_text r = concat (map candidate_texts cands)) \<and>
   apology \<noteq> [] \<and>
   (\<forall>kvs image_bytes.
      load_memory env (from_user_id upd) w = Inr (JObj kvs) \<and> msg_photo upd \<noteq> [] \<and>
      download_to_memory env (last (msg_photo upd)) = Inr image_bytes \<and>
      generate_with_image env image_bytes
        (photo_prompt env (case msg_caption upd of None \<Rightarrow> [] | Some c \<Rightarrow> c) kvs) = Inr r \<longrightarrow>
      replied (snd (handle_photo env upd w)) = replied w @ [photo_ai_text r]) \<and>
   (\<forall>kvs parts.
      lower env (msg_text upd) \<noteq> str ''/stop'' \<and>
      load_memory env (from_user_id upd) w = Inr (JObj kvs) \<and>
      send_message env (msg_text upd @ memory_block env kvs) = Inr r \<and>
      resp_parts r = Some parts \<longrightarrow>
      replied (snd (chat env upd w)) = replied w @ [all_part_texts parts])"
proof (intro conjI allI impI)
  fix t assume "resp_text r = Some t \<and> t \<noteq> []"
  then show "photo_ai_text r = t" by (simp add: photo_ai_text_def)
next
  assume "(resp_text r = None \<or> resp_text r = Some []) \<and> resp_candidates r = None"
  then show "photo_ai_text r = apology" by (auto simp: photo_ai_text_def)
next
  fix cands
  assume a: "(resp_text r = None \<or> resp_text r = Some []) \<and> resp_candidates r = Some cands \<and>
      (\<exists>c\<in>set cands. candidate_parts c = None)"
  then obtain e where "add_candidate_texts [] cands = Inl e"
    using add_candidate_texts_raises by blast
  with a show "photo_ai_text r = apology" by (auto simp: photo_ai_text_def)
next
  fix cands
  assume a: "(resp_text r = None \<or> resp_text r = Some []) \<and> resp_candidates r = Some cands \<and>
      (\<forall>c\<in>set cands. candidate_parts c \<noteq> None) \<and> concat (map candidate_texts cands) \<noteq> []"
  then have "add_candidate_texts [] cands = Inr (concat (map candidate_texts cands))"
    using add_candidate_texts_all [of cands "[]"] by simp
  with a show "photo_ai_text r = concat (map candidate_texts cands)"
    by (auto simp: photo_ai_text_def)
next
  show "apology \<noteq> []" by (rule apology_not_empty)
next
  fix kvs image_bytes
  assume "load_memory env (from_user_id upd) w = Inr (JObj kvs) \<and> msg_photo upd \<noteq> [] \<and>
      download_to_memory env (last (msg_photo upd)) = Inr image_bytes \<and>
      generate_with_image env image_bytes
        (photo_prompt env (case msg_caption upd of None \<Rightarrow> [] | Some c \<Rightarrow> c) kvs) = Inr r"
  then show "replied (snd (handle_photo env upd w)) = replied w @ [photo_ai_text r]"
    using handle_photo_relays by blast
next
  fix kvs parts
  assume "lower env (msg_text upd) \<noteq> str ''/stop'' \<and>
      load_memory env (from_user_id upd) w = Inr (JObj kvs) \<and>
      send_message env (msg_text upd @ memory_block env kvs) = Inr r \<and>
      resp_parts r = Some parts"
  then show "replied (snd (chat env upd w)) = replied w @ [all_part_texts parts]"
    using chat_relays by blast
qed

text \<open>
  The amended claim on four responses: one with a top-level text, one without
  candidates, one whose candidate has no content, one with an empty top-level text and
  text in the parts of two candidates; and on the two handlers for user 42.
\<close>

theorem reply_text_cases_witness:
  "resp_text (text_response (str ''A cat'')) = Some (str ''A cat'') \<and>
   photo_ai_text (text_response (str ''A cat'')) = str ''A cat'' \<and>
   resp_text no_candidates_response = None \<and> resp_candidates no_candidates_response = None \<and>
   photo_ai_text no_candidates_response = apology \<and>
   resp_text broken_candidate_response = None \<and>
   resp_candidates broken_candidate_response = Some [Candidate None] \<and>
   candidate_parts (Candidate None) = None \<and>
   photo_ai_text broken_candidate_response = apology \<and>
   resp_text parts_only_response = Some [] \<and>
   photo_ai_text parts_only_response = str ''A cat'' \<and>
   apology \<noteq> [] \<and>
   replied (snd (handle_photo demo_bot photo_update empty_world)) = [str ''A cat''] \<and>
   replied (snd (chat demo_bot hi_update empty_world)) = [str ''Hello'']"
proof -
  note T1 = reply_text_cases [of "text_response (str ''A cat'')" demo_bot photo_update empty_world]
  note T2 = reply_text_cases [of no_candidates_response demo_bot photo_update empty_world]
  note T3 = reply_text_cases [of broken_candidate_response demo_bot photo_update empty_world]
  note T4 = reply_text_cases [of parts_only_response demo_bot photo_update empty_world]
  note T5 = reply_text_cases [of "text_response (str ''Hello'')" demo_bot hi_update empty_world]
  have a1: "resp_text (text_response (str ''A cat'')) = Some (str ''A cat'')"
    by (simp add: text_response_def)
  have r1: "photo_ai_text (text_response (str ''A cat'')) = str ''A cat''"
    using T1 a1 by blast
  have a2: "resp_text no_candidates_response = None"
    "resp_candidates no_candidates_response = None"
    by (simp_all add: no_candidates_response_def)
  have r2: "photo_ai_text no_candidates_response = apology"
    using T2 a2 by blast
  have a3: "resp_text broken_candidate_response = None"
    "resp_candidates broken_candidate_response = Some [Candidate None]"
    "candidate_parts (Candidate None) = None"
    by (simp_all add: broken_candidate_response_def candidate_parts_def)
  have "\<exists>c\<in>set [Candidate None]. candidate_parts c = None"
    using a3(3) by simp
  then have r3: "photo_ai_text broken_candidate_response = apology"
    using T3 a3(1,2) by blast
  let ?cands = "[Candidate (Some (Content (Some [Part (Some (str ''A'')), Part None]))),
              Candidate (Some (Content (Some [Part (Some (str '' cat''))])))]"
  have a4: "resp_text parts_only_response = Some []"
    "resp_candidates parts_only_response = Some ?cands"
    by (simp_all add: parts_only_response_def)
  have b4: "\<forall>c\<in>set ?cands. candidate_parts c \<noteq> None"
    by (simp add: candidate_parts_def)
  have c4: "concat (map candidate_texts ?cands) = str ''A cat''"
    by (simp add: candidate_texts_def candidate_parts_def all_part_texts_def)
  then have "concat (map candidate_texts ?cands) \<noteq> []" by simp
  with T4 a4 b4 have "photo_ai_text parts_only_response = concat (map candidate_texts ?cands)"
    by blast
  with c4 have r4: "photo_ai_text parts_only_response = str ''A cat''" by simp
  have r5: "apology \<noteq> []" using T1 by blast
  have p1: "load_memory demo_bot (from_user_id photo_update) empty_world = Inr (JObj [])"
    by (simp add: load_memory_def empty_world_def)
  have p2: "msg_photo photo_update \<noteq> []" by (simp add: photo_update_def)
  have p3: "download_to_memory demo_bot (last (msg_photo photo_update)) = Inr png_magic"
    by (simp add: demo_bot_def)
  have p4: "generate_with_image demo_bot png_magic
        (photo_prompt demo_bot (case msg_caption photo_update of None \<Rightarrow> [] | Some c \<Rightarrow> c) [])
      = Inr (text_response (str ''A cat''))"
    by (simp add: demo_bot_def)
  have "replied (snd (handle_photo demo_bot photo_update empty_world))
      = replied empty_world @ [photo_ai_text (text_response (str ''A cat''))]"
    using T1 p1 p2 p3 p4 by blast
  then have r6: "replied (snd (handle_photo demo_bot photo_update empty_world)) = [str ''A cat'']"
    using r1 by (simp add: empty_world_def)
  have q1: "lower demo_bot (msg_text hi_update) \<noteq> str ''/stop''"
    by (simp add: demo_bot_def hi_update_def ascii_lower_def)
  have q2: "load_memory demo_bot (from_user_id hi_update) empty_world = Inr (JObj [])"
    by (simp add: load_memory_def empty_world_def)
  have q3: "send_message demo_bot (msg_text hi_update @ memory_block demo_bot [])
      = Inr (text_response (str ''Hello''))"
    by (simp add: demo_bot_def)
  have q4: "resp_parts (text_response (str ''Hello'')) = Some [Part (Some (str ''Hello''))]"
    by (simp add: text_response_def)
  have "replied (snd (chat demo_bot hi_update empty_world))
      = replied empty_world @ [all_part_texts [Part (Some (str ''Hello''))]]"
    using T5 q1 q2 q3 q4 by blast
  then have r7: "replied (snd (chat demo_bot hi_update empty_world)) = [str ''Hello'']"
    by (simp add: empty_world_def all_part_texts_def)
  from a1 r1 a2 r2 a3 r3 a4(1) r4 r5 r6 r7 show ?thesis by blast
qed

text \<open>
  Claim C4 as stated does not hold: for a reply whose only part carries no text, \<open>chat\<close>
  passes the empty string to \<open>reply_text\<close>.
\<close>

theorem chat_relays_empty_text:
  "resp_parts textless_response = Some [Part None] \<and>
   replied (snd (chat textless_bot hi_update empty_world)) = [[]]"
  by (simp add: chat_def Let_def memory_items_def replied_and_then_saves load_memory_def
      empty_world_def textless_bot_def textless_response_def demo_bot_def hi_update_def
      ascii_lower_def)

text \<open>
  In \<open>handle_photo\<close> the apology is substituted in the \<open>except\<close> branch only. When the
  loops finish without raising and find no text, the text stays empty.
\<close>

lemma photo_reply_can_be_empty:
  "photo_ai_text textless_response = [] \<and>
   replied (snd (handle_photo textless_bot photo_update empty_world)) = [[]]"
  by (simp add: handle_photo_def Let_def memory_items_def replied_and_then_saves load_memory_def
      empty_world_def textless_bot_def textless_response_def demo_bot_def photo_update_def
      photo_ai_text_def)

subsection \<open>The entries the handlers append\<close>

text \<open>
  \<open>save_history\<close> is called in four places: twice at the end of \<open>chat\<close> and twice at the
  end of \<open>handle_photo\<close>. A reply does not touch the files or the clock.
\<close>

lemma save_history_from_existing:
  assumes "existing_history env user_id w history"
  shows "save_history env user_id sender message w =
    (Done, w\<lparr>clock_reads := Suc (clock_reads w),
              files := (files w)(user_history_path user_id \<mapsto>
                json_dumps env (JArr (history @
                  [history_entry (strftime (clock env (clock_reads w))) sender message])))\<rparr>)"
  using assms
  by (auto simp: existing_history_def save_history_def Let_def split: option.splits sum.splits)

lemma files_reply: "files (snd (reply env t w)) = files w"
  by (auto simp: reply_def Let_def split: option.splits)

lemma clock_reads_reply: "clock_reads (snd (reply env t w)) = clock_reads w"
  by (auto simp: reply_def Let_def split: option.splits)

lemma existing_history_files:
  "files w1 = files w \<Longrightarrow> existing_history env user_id w1 history = existing_history env user_id w history"
  by (simp add: existing_history_def)

lemma reply_then_two_saves:
  assumes h: "existing_history env user_id w history"
    and codec: "json_load env (json_dumps env (JArr (history @
        [history_entry (strftime (clock env (clock_reads w))) s1 m1])))
      = Inr (JArr (history @ [history_entry (strftime (clock env (clock_reads w))) s1 m1]))"
  shows "files (snd (and_then (reply env t w) (\<lambda>w1.
            and_then (save_history env user_id s1 m1 w1) (save_history env user_id s2 m2))))
         = files w \<or>
         files (snd (and_then (reply env t w) (\<lambda>w1.
            and_then (save_history env user_id s1 m1 w1) (save_history env user_id s2 m2))))
         = (files w)(user_history_path user_id \<mapsto>
              json_dumps env (JArr (history @
                [history_entry (strftime (clock env (clock_reads w))) s1 m1,
                 history_entry (strftime (clock env (Suc (clock_reads w)))) s2 m2])))"
proof (cases "reply env t w")
  case (Pair out w1)
  have f1: "files w1 = files w" using Pair files_reply [of env t w] by simp
  have c1: "clock_reads w1 = clock_reads w" using Pair clock_reads_reply [of env t w] by simp
  show ?thesis
  proof (cases out)
    case (Raised e)
    with Pair f1 show ?thesis by (simp add: and_then_def)
  next
    case Done
    have h1: "existing_history env user_id w1 history"
      using h by (simp add: existing_history_files [OF f1])
    have s: "save_history env user_id s1 m1 w1 =
      (Done, w1\<lparr>clock_reads := Suc (clock_reads w1),
              files := (files w1)(user_history_path user_id \<mapsto>
                json_dumps env (JArr (history @
                  [history_entry (strftime (clock env (clock_reads w1))) s1 m1])))\<rparr>)"
      using h1 by (rule save_history_from_existing)
    have codec1: "json_load env (json_dumps env (JArr (history @
        [history_entry (strftime (clock env (clock_reads w1))) s1 m1])))
      = Inr (JArr (history @ [history_entry (strftime (clock env (clock_reads w1))) s1 m1]))"
      using codec by (simp only: c1)
    have "and_then (save_history env user_id s1 m1 w1) (save_history env user_id s2 m2) =
      (Done, w1\<lparr>clock_reads := Suc (Suc (clock_reads w1)),
              files := (files w1)(user_history_path user_id \<mapsto>
                json_dumps env (JArr (history @
                  [history_entry (strftime (clock env (clock_reads w1))) s1 m1,
                   history_entry (strftime (clock env (Suc (clock_reads w1)))) s2 m2])))\<rparr>)"
      using s codec1 by (rule save_history_twice)
    with Pair Done f1 c1 show ?thesis by (simp add: and_then_def)
  qed
qed

lemma chat_files:
  assumes h: "existing_history env (from_user_id upd) w history"
    and codec: "json_load env (json_dumps env (JArr (history @
        [history_entry (strftime (clock env (clock_reads w))) (str ''You'') (msg_text upd)])))
      = Inr (JArr (history @
        [history_entry (strftime (clock env (clock_reads w))) (str ''You'') (msg_text upd)]))"
  shows "files (snd (chat env upd w)) = files w \<or>
    (\<exists>ai_text. files (snd (chat env upd w)) =
       (files w)(user_history_path (from_user_id upd) \<mapsto>
          json_dumps env (JArr (history @
            [history_entry (strftime (clock env (clock_reads w))) (str ''You'') (msg_text upd),
             history_entry (strftime (clock env (Suc (clock_reads w)))) (str ''AI'') ai_text]))))"
proof (cases "lower env (msg_text upd) = str ''/stop''")
  case True
  then show ?thesis by (simp add: chat_def stop_def files_reply)
next
  case ns: False
  show ?thesis
  proof (cases "load_memory env (from_user_id upd) w")
    case (Inl e)
    with ns show ?thesis by (simp add: chat_def)
  next
    case lm: (Inr memory)
    show ?thesis
    proof (cases "memory_items memory")
      case (Inl e)
      with ns lm show ?thesis by (simp add: chat_def)
    next
      case mi: (Inr kvs)
      show ?thesis
      proof (cases "send_message env (msg_text upd @ memory_block env kvs)")
        case (Inl e)
        with ns lm mi show ?thesis by (simp add: chat_def)
      next
        case sm: (Inr r)
        show ?thesis
        proof (cases "resp_parts r")
          case None
          with ns lm mi sm show ?thesis by (simp add: chat_def)
        next
          case (Some parts)
          with ns lm mi sm have c: "chat env upd w =
              and_then (reply env (add_part_texts [] parts) w) (\<lambda>w1.
                and_then (save_history env (from_user_id upd) (str ''You'') (msg_text upd) w1)
                  (save_history env (from_user_id upd) (str ''AI'') (add_part_texts [] parts)))"
            by (simp add: chat_def Let_def)
          show ?thesis
            unfolding c
            using reply_then_two_saves [OF h codec, of "add_part_texts [] parts" "str ''AI''"
                "add_part_texts [] parts"]
            by blast
        qed
      qed
    qed
  qed
qed

lemma handle_photo_files:
  assumes h: "existing_history env (from_user_id upd) w history"
    and codec: "json_load env (json_dumps env (JArr (history @
        [history_entry (strftime (clock env (clock_reads w))) (str ''You (image)'')
           (if (case msg_caption upd of None \<Rightarrow> [] | Some c \<Rightarrow> c) = [] then str ''[Image]''
            else (case msg_caption upd of None \<Rightarrow> [] | Some c \<Rightarrow> c))])))
      = Inr (JArr (history @
        [history_entry (strftime (clock env (clock_reads w))) (str ''You (image)'')
           (if (case msg_caption upd of None \<Rightarrow> [] | Some c \<Rightarrow> c) = [] then str ''[Image]''
            else (case msg_caption upd of None \<Rightarrow> [] | Some c \<Rightarrow> c))]))"
  shows "files (snd (handle_photo env upd w)) = files w \<or>
    (\<exists>ai_text. files (snd (handle_photo env upd w)) =
       (files w)(user_history_path (from_user_id upd) \<mapsto>
          json_dumps env (JArr (history @
            [history_entry (strftime (clock env (clock_reads w))) (str ''You (image)'')
               (if (case msg_caption upd of None \<Rightarrow> [] | Some c \<Rightarrow> c) = [] then str ''[Image]''
                else (case msg_caption upd of None \<Rightarrow> [] | Some c \<Rightarrow> c)),
             history_entry (strftime (clock env (Suc (clock_reads w)))) (str ''AI'') ai_text]))))"
proof (cases "load_memory env (from_user_id upd) w")
  case (Inl e)
  then show ?thesis by (simp add: handle_photo_def)
next
  case lm: (Inr memory)
  show ?thesis
  proof (cases "memory_items memory")
    case (Inl e)
    with lm show ?thesis by (simp add: handle_photo_def)
  next
    case mi: (Inr kvs)
    show ?thesis
    proof (cases "msg_photo upd = []")
      case True
      with lm mi show ?thesis by (simp add: handle_photo_def)
    next
      case ph: False
      show ?thesis
      proof (cases "download_to_memory env (last (msg_photo upd))")
        case (Inl e)
        with lm mi ph show ?thesis by (simp add: handle_photo_def)
      next
        case dl: (Inr image_bytes)
        let ?caption = "case msg_caption upd of None \<Rightarrow> [] | Some c \<Rightarrow> c"
        show ?thesis
        proof (cases "generate_with_image env image_bytes (photo_prompt env ?caption kvs)")
          case (Inl e)
          with lm mi ph dl show ?thesis by (simp add: handle_photo_def)
        next
          case (Inr r)
          with lm mi ph dl have c: "handle_photo env upd w =
              and_then (reply env (photo_ai_text r) w) (\<lambda>w1.
                and_then (save_history env (from_user_id upd) (str ''You (image)'')
                    (if ?caption = [] then str ''[Image]'' else ?caption) w1)
                  (save_history env (from_user_id upd) (str ''AI'') (photo_ai_text r)))"
            by (simp add: handle_photo_def Let_def)
          show ?thesis
            unfolding c
            using reply_then_two_saves [OF h codec, of "photo_ai_text r" "str ''AI''"
                "photo_ai_text r"]
            by blast
        qed
      qed
    qed
  qed
qed

text \<open>The timestamp \<open>%Y-%m-%d %H:%M:%S\<close>, digit by digit.\<close>

lemma digits_1: "n < 10 \<Longrightarrow> digits n = [48 + n]"
  by (simp add: digits.simps)

lemma digits_2:
  assumes "10 \<le> n" and "n < 100"
  shows "digits n = [48 + n div 10, 48 + n mod 10]"
proof -
  from assms have "n div 10 < 10" by simp
  then have "digits (n div 10) = [48 + n div 10]" by (rule digits_1)
  with assms show ?thesis by (subst digits.simps) simp
qed

lemma zero_pad_2:
  assumes "n < 100" shows "zero_pad 2 n = [48 + n div 10, 48 + n mod 10]"
proof (cases "n < 10")
  case True
  then show ?thesis by (simp add: zero_pad_def digits_1)
next
  case False
  with assms show ?thesis by (simp add: zero_pad_def digits_2)
qed

lemma digits_3:
  assumes "100 \<le> n" and "n < 1000"
  shows "digits n = [48 + n div 100, 48 + n div 10 mod 10, 48 + n mod 10]"
proof -
  from assms have "10 \<le> n div 10" "n div 10 < 100" by simp_all
  then have "digits (n div 10) = [48 + n div 10 div 10, 48 + n div 10 mod 10]"
    by (rule digits_2)
  moreover have "n div 10 div 10 = n div 100" by (simp add: div_mult2_eq)
  ultimately show ?thesis using assms by (subst digits.simps) simp
qed

lemma digits_4:
  assumes "1000 \<le> n" and "n < 10000"
  shows "digits n = [48 + n div 1000, 48 + n div 100 mod 10, 48 + n div 10 mod 10, 48 + n mod 10]"
proof -
  from assms have "100 \<le> n div 10" "n div 10 < 1000" by simp_all
  then have "digits (n div 10)
      = [48 + n div 10 div 100, 48 + n div 10 div 10 mod 10, 48 + n div 10 mod 10]"
    by (rule digits_3)
  moreover have "n div 10 div 100 = n div 1000" "n div 10 div 10 = n div 100"
    by (simp_all add: div_mult2_eq)
  ultimately show ?thesis using assms by (subst digits.simps) simp
qed

lemma zero_pad_4:
  assumes "1000 \<le> n" and "n < 10000"
  shows "zero_pad 4 n
    = [48 + n div 1000, 48 + n div 100 mod 10, 48 + n div 10 mod 10, 48 + n mod 10]"
  using assms by (simp add: zero_pad_def digits_4)

lemma strftime_layout:
  assumes "1000 \<le> dt_year dt" "dt_year dt < 10000" "dt_month dt < 100" "dt_day dt < 100"
    "dt_hour dt < 100" "dt_minute dt < 100" "dt_second dt < 100"
  shows "strftime dt =
    [48 + dt_year dt div 1000, 48 + dt_year dt div 100 mod 10, 48 + dt_year dt div 10 mod 10,
     48 + dt_year dt mod 10, 45,
     48 + dt_month dt div 10, 48 + dt_month dt mod 10, 45,
     48 + dt_day dt div 10, 48 + dt_day dt mod 10, 32,
     48 + dt_hour dt div 10, 48 + dt_hour dt mod 10, 58,
     48 + dt_minute dt div 10, 48 + dt_minute dt mod 10, 58,
     48 + dt_second dt div 10, 48 + dt_second dt mod 10]"
  using assms by (simp add: strftime_def zero_pad_2 zero_pad_4)

lemma demo_timestamps:
  "strftime (clock demo_bot (Suc (clock_reads empty_world))) = str ''2026-11-04 10:00:01''"
  by (simp add: demo_bot_eval empty_world_def)

lemma reply_done_then_two_saves:
  assumes h: "existing_history env user_id w history"
    and codec: "json_load env (json_dumps env (JArr (history @
        [history_entry (strftime (clock env (clock_reads w))) s1 m1])))
      = Inr (JArr (history @ [history_entry (strftime (clock env (clock_reads w))) s1 m1]))"
    and rt: "reply_text env t = None"
  shows "files (snd (and_then (reply env t w) (\<lambda>w1.
            and_then (save_history env user_id s1 m1 w1) (save_history env user_id s2 m2))))
         = (files w)(user_history_path user_id \<mapsto>
              json_dumps env (JArr (history @
                [history_entry (strftime (clock env (clock_reads w))) s1 m1,
                 history_entry (strftime (clock env (Suc (clock_reads w)))) s2 m2])))"
proof -
  obtain w1 where w1: "w1 = w\<lparr>replied := replied w @ [t]\<rparr>" by simp
  have r: "reply env t w = (Done, w1)" using rt w1 by (simp add: reply_def)
  have f1: "files w1 = files w" using w1 by simp
  have c1: "clock_reads w1 = clock_reads w" using w1 by simp
  have h1: "existing_history env user_id w1 history"
    using h by (simp add: existing_history_files [OF f1])
  have s: "save_history env user_id s1 m1 w1 =
    (Done, w1\<lparr>clock_reads := Suc (clock_reads w1),
            files := (files w1)(user_history_path user_id \<mapsto>
              json_dumps env (JArr (history @
                [history_entry (strftime (clock env (clock_reads w1))) s1 m1])))\<rparr>)"
    using h1 by (rule save_history_from_existing)
  have codec1: "json_load env (json_dumps env (JArr (history @
      [history_entry (strftime (clock env (clock_reads w1))) s1 m1])))
    = Inr (JArr (history @ [history_entry (strftime (clock env (clock_reads w1))) s1 m1]))"
    using codec by (simp only: c1)
  have "and_then (save_history env user_id s1 m1 w1) (save_history env user_id s2 m2) =
    (Done, w1\<lparr>clock_reads := Suc (Suc (clock_reads w1)),
            files := (files w1)(user_history_path user_id \<mapsto>
              json_dumps env (JArr (history @
                [history_entry (strftime (clock env (clock_reads w1))) s1 m1,
                 history_entry (strftime (clock env (Suc (clock_reads w1)))) s2 m2])))\<rparr>)"
    using s codec1 by (rule save_history_twice)
  with r f1 c1 show ?thesis by (simp add: and_then_def)
qed

lemma chat_saves:
  assumes h: "existing_history env (from_user_id upd) w history"
    and codec: "json_load env (json_dumps env (JArr (history @
        [history_entry (strftime (clock env (clock_reads w))) (str ''You'') (msg_text upd)])))
      = Inr (JArr (history @
        [history_entry (strftime (clock env (clock_reads w))) (str ''You'') (msg_text upd)]))"
    and ns: "lower env (msg_text upd) \<noteq> str ''/stop''"
    and lm: "load_memory env (from_user_id upd) w = Inr (JObj kvs)"
    and sm: "send_message env (msg_text upd @ memory_block env kvs) = Inr r"
    and rp: "resp_parts r = Some parts"
    and rt: "reply_text env (all_part_texts parts) = None"
  shows "files (snd (chat env upd w)) =
    (files w)(user_history_path (from_user_id upd) \<mapsto>
       json_dumps env (JArr (history @
         [history_entry (strftime (clock env (clock_reads w))) (str ''You'') (msg_text upd),
          history_entry (strftime (clock env (Suc (clock_reads w)))) (str ''AI'') (all_part_texts parts)])))"
proof -
  from ns lm sm rp have c: "chat env upd w =
      and_then (reply env (all_part_texts parts) w) (\<lambda>w1.
        and_then (save_history env (from_user_id upd) (str ''You'') (msg_text upd) w1)
          (save_history env (from_user_id upd) (str ''AI'') (all_part_texts parts)))"
    by (simp add: chat_def Let_def memory_items_def add_part_texts_concat)
  show ?thesis unfolding c using h codec rt by (rule reply_done_then_two_saves)
qed

lemma handle_photo_saves:
  assumes h: "existing_history env (from_user_id upd) w history"
    and codec: "json_load env (json_dumps env (JArr (history @
        [history_entry (strftime (clock env (clock_reads w))) (str ''You (image)'')
            (if (case msg_caption upd of None \<Rightarrow> [] | Some c \<Rightarrow> c) = [] then str ''[Image]''
             else (case msg_caption upd of None \<Rightarrow> [] | Some c \<Rightarrow> c))])))
      = Inr (JArr (history @
        [history_entry (strftime (clock env (clock_reads w))) (str ''You (image)'')
            (if (case msg_caption upd of None \<Rightarrow> [] | Some c \<Rightarrow> c) = [] then str ''[Image]''
             else (case msg_caption upd of None \<Rightarrow> [] | Some c \<Rightarrow> c))]))"
    and lm: "load_memory env (from_user_id upd) w = Inr (JObj kvs)"
    and ph: "msg_photo upd \<noteq> []"
    and dl: "download_to_memory env (last (msg_photo upd)) = Inr image_bytes"
    and gc: "generate_with_image env image_bytes (photo_prompt env (case msg_caption upd of None \<Rightarrow> [] | Some c \<Rightarrow> c) kvs) = Inr r"
    and rt: "reply_text env (photo_ai_text r) = None"
  shows "files (snd (handle_photo env upd w)) =
    (files w)(user_history_path (from_user_id upd) \<mapsto>
       json_dumps env (JArr (history @
         [history_entry (strftime (clock env (clock_reads w))) (str ''You (image)'')
            (if (case msg_caption upd of None \<Rightarrow> [] | Some c \<Rightarrow> c) = [] then str ''[Image]''
             else (case msg_caption upd of None \<Rightarrow> [] | Some c \<Rightarrow> c)),
          history_entry (strftime (clock env (Suc (clock_reads w)))) (str ''AI'') (photo_ai_text r)])))"
proof -
  from lm ph dl gc have c: "handle_photo env upd w =
      and_then (reply env (photo_ai_text r) w) (\<lambda>w1.
        and_then (save_history env (from_user_id upd) (str ''You (image)'')
            (if (case msg_caption upd of None \<Rightarrow> [] | Some c \<Rightarrow> c) = [] then str ''[Image]''
             else (case msg_caption upd of None \<Rightarrow> [] | Some c \<Rightarrow> c)) w1)
          (save_history env (from_user_id upd) (str ''AI'') (photo_ai_text r)))"
    by (simp add: handle_photo_def Let_def memory_items_def)
  show ?thesis unfolding c using h codec rt by (rule reply_done_then_two_saves)
qed

text \<open>
  \<^bold>\<open>Claim C5.\<close> Let the history file of the user be absent, hold a JSON array \<open>history\<close>,
  or not be JSON (then \<open>history\<close> is empty), and let the json library read back the array
  that the first of the two \<open>save_history\<close> calls writes. Then

  \<^item> \<open>chat\<close> either leaves the files as they are, or leaves in the history file of the
    user the array \<open>history\<close> followed by exactly two entries: one with sender \<open>You\<close> and
    the text of the message, one with sender \<open>AI\<close> and a text; when the model answers and
    \<open>reply_text\<close> succeeds it is the second case, and the text is the one relayed;

  \<^item> \<open>handle_photo\<close> does the same with sender \<open>You (image)\<close> and the caption, or
    \<open>[Image]\<close> for an empty or missing caption, and sender \<open>AI\<close>;

  \<^item> every entry is the object of \<open>timestamp\<close>, \<open>sender\<close> and \<open>message\<close>, and its
    timestamp is \<open>strftime\<close> of the clock, which does not depend on the microseconds and,
    for a four-digit year, is the nineteen characters \<open>YYYY-MM-DD HH:MM:SS\<close>.
\<close>

theorem history_entries_wellformed:
  assumes "existing_history env (from_user_id upd) w history"
  shows
   "(json_load env (json_dumps env (JArr (history @
        [history_entry (strftime (clock env (clock_reads w))) (str ''You'') (msg_text upd)])))
      = Inr (JArr (history @
        [history_entry (strftime (clock env (clock_reads w))) (str ''You'') (msg_text upd)])) \<longrightarrow>
     (files (snd (chat env upd w)) = files w \<or>
      (\<exists>ai_text. files (snd (chat env upd w)) =
         (files w)(user_history_path (from_user_id upd) \<mapsto>
            json_dumps env (JArr (history @
              [history_entry (strftime (clock env (clock_reads w))) (str ''You'') (msg_text upd),
               history_entry (strftime (clock env (Suc (clock_reads w)))) (str ''AI'') ai_text]))))) \<and>
     (\<forall>kvs r parts.
        lower env (msg_text upd) \<noteq> str ''/stop'' \<and>
        load_memory env (from_user_id upd) w = Inr (JObj kvs) \<and>
        send_message env (msg_text upd @ memory_block env kvs) = Inr r \<and>
        resp_parts r = Some parts \<and>
        reply_text env (all_part_texts parts) = None \<longrightarrow>
        files (snd (chat env upd w)) =
          (files w)(user_history_path (from_user_id upd) \<mapsto>
             json_dumps env (JArr (history @
               [history_entry (strftime (clock env (clock_reads w))) (str ''You'') (msg_text upd),
                history_entry (strftime (clock env (Suc (clock_reads w)))) (str ''AI'') (all_part_texts parts)]))))) \<and>
    (json_load env (json_dumps env (JArr (history @
        [history_entry (strftime (clock env (clock_reads w))) (str ''You (image)'')
            (if (case msg_caption upd of None \<Rightarrow> [] | Some c \<Rightarrow> c) = [] then str ''[Image]''
             else (case msg_caption upd of None \<Rightarrow> [] | Some c \<Rightarrow> c))])))
      = Inr (JArr (history @
        [history_entry (strftime (clock env (clock_reads w))) (str ''You (image)'')
            (if (case msg_caption upd of None \<Rightarrow> [] | Some c \<Rightarrow> c) = [] then str ''[Image]''
             else (case msg_caption upd of None \<Rightarrow> [] | Some c \<Rightarrow> c))])) \<longrightarrow>
     (files (snd (handle_photo env upd w)) = files w \<or>
      (\<exists>ai_text. files (snd (handle_photo env upd w)) =
         (files w)(user_history_path (from_user_id upd) \<mapsto>
            json_dumps env (JArr (history @
              [history_entry (strftime (clock env (clock_reads w))) (str ''You (image)'')
            (if (case msg_caption upd of None \<Rightarrow> [] | Some c \<Rightarrow> c) = [] then str ''[Image]''
             else (case msg_caption upd of None \<Rightarrow> [] | Some c \<Rightarrow> c)),
               history_entry (strftime (clock env (Suc (clock_reads w)))) (str ''AI'') ai_text]))))) \<and>
     (\<forall>kvs image_bytes r.
        load_memory env (from_user_id upd) w = Inr (JObj kvs) \<and>
        msg_photo upd \<noteq> [] \<and>
        download_to_memory env (last (msg_photo upd)) = Inr image_bytes \<and>
        generate_with_image env image_bytes (photo_prompt env (case msg_caption upd of None \<Rightarrow> [] | Some c \<Rightarrow> c) kvs) = Inr r \<and>
        reply_text env (photo_ai_text r) = None \<longrightarrow>
        files (snd (handle_photo env upd w)) =
          (files w)(user_history_path (from_user_id upd) \<mapsto>
             json_dumps env (JArr (history @
               [history_entry (strftime (clock env (clock_reads w))) (str ''You (image)'')
            (if (case msg_caption upd of None \<Rightarrow> [] | Some c \<Rightarrow> c) = [] then str ''[Image]''
             else (case msg_caption upd of None \<Rightarrow> [] | Some c \<Rightarrow> c)),
                history_entry (strftime (clock env (Suc (clock_reads w)))) (str ''AI'') (photo_ai_text r)]))))) \<and>
    strftime (dt\<lparr>dt_microsecond := us\<rparr>) = strftime dt \<and>
    (1000 \<le> dt_year dt \<and> dt_year dt < 10000 \<and> dt_month dt < 100 \<and> dt_day dt < 100 \<and>
     dt_hour dt < 100 \<and> dt_minute dt < 100 \<and> dt_second dt < 100 \<longrightarrow>
     strftime dt =
       [48 + dt_year dt div 1000, 48 + dt_year dt div 100 mod 10, 48 + dt_year dt div 10 mod 10,
        48 + dt_year dt mod 10, 45,
        48 + dt_month dt div 10, 48 + dt_month dt mod 10, 45,
        48 + dt_day dt div 10, 48 + dt_day dt mod 10, 32,
        48 + dt_hour dt div 10, 48 + dt_hour dt mod 10, 58,
        48 + dt_minute dt div 10, 48 + dt_minute dt mod 10, 58,
        48 + dt_second dt div 10, 48 + dt_second dt mod 10])"
proof -
  have chat_part: "files (snd (chat env upd w)) = files w \<or>
      (\<exists>ai_text. files (snd (chat env upd w)) =
         (files w)(user_history_path (from_user_id upd) \<mapsto>
            json_dumps env (JArr (history @
              [history_entry (strftime (clock env (clock_reads w))) (str ''You'') (msg_text upd),
               history_entry (strftime (clock env (Suc (clock_reads w)))) (str ''AI'') ai_text]))))"
    if "json_load env (json_dumps env (JArr (history @
        [history_entry (strftime (clock env (clock_reads w))) (str ''You'') (msg_text upd)])))
      = Inr (JArr (history @
        [history_entry (strftime (clock env (clock_reads w))) (str ''You'') (msg_text upd)]))"
    using assms that by (rule chat_files)
  have chat_done: "files (snd (chat env upd w)) =
          (files w)(user_history_path (from_user_id upd) \<mapsto>
             json_dumps env (JArr (history @
               [history_entry (strftime (clock env (clock_reads w))) (str ''You'') (msg_text upd),
                history_entry (strftime (clock env (Suc (clock_reads w)))) (str ''AI'') (all_part_texts parts)])))"
    if "json_load env (json_dumps env (JArr (history @
        [history_entry (strftime (clock env (clock_reads w))) (str ''You'') (msg_text upd)])))
      = Inr (JArr (history @
        [history_entry (strftime (clock env (clock_reads w))) (str ''You'') (msg_text upd)]))"
      and "lower env (msg_text upd) \<noteq> str ''/stop'' \<and>
        load_memory env (from_user_id upd) w = Inr (JObj kvs) \<and>
        send_message env (msg_text upd @ memory_block env kvs) = Inr r \<and>
        resp_parts r = Some parts \<and>
        reply_text env (all_part_texts parts) = None"
    for kvs r parts
    using assms that by (intro chat_saves [where kvs = kvs and r = r]) simp_all
  have photo_part: "files (snd (handle_photo env upd w)) = files w \<or>
      (\<exists>ai_text. files (snd (handle_photo env upd w)) =
         (files w)(user_history_path (from_user_id upd) \<mapsto>
            json_dumps env (JArr (history @
              [history_entry (strftime (clock env (clock_reads w))) (str ''You (image)'')
            (if (case msg_caption upd of None \<Rightarrow> [] | Some c \<Rightarrow> c) = [] then str ''[Image]''
             else (case msg_caption upd of None \<Rightarrow> [] | Some c \<Rightarrow> c)),
               history_entry (strftime (clock env (Suc (clock_reads w)))) (str ''AI'') ai_text]))))"
    if "json_load env (json_dumps env (JArr (history @
        [history_entry (strftime (clock env (clock_reads w))) (str ''You (image)'')
            (if (case msg_caption upd of None \<Rightarrow> [] | Some c \<Rightarrow> c) = [] then str ''[Image]''
             else (case msg_caption upd of None \<Rightarrow> [] | Some c \<Rightarrow> c))])))
      = Inr (JArr (history @
        [history_entry (strftime (clock env (clock_reads w))) (str ''You (image)'')
            (if (case msg_caption upd of None \<Rightarrow> [] | Some c \<Rightarrow> c) = [] then str ''[Image]''
             else (case msg_caption upd of None \<Rightarrow> [] | Some c \<Rightarrow> c))]))"
    using assms that by (rule handle_photo_files)
  have photo_done: "files (snd (handle_photo env upd w)) =
          (files w)(user_history_path (from_user_id upd) \<mapsto>
             json_dumps env (JArr (history @
               [history_entry (strftime (clock env (clock_reads w))) (str ''You (image)'')
            (if (case msg_caption upd of None \<Rightarrow> [] | Some c \<Rightarrow> c) = [] then str ''[Image]''
             else (case msg_caption upd of None \<Rightarrow> [] | Some c \<Rightarrow> c)),
                history_entry (strftime (clock env (Suc (clock_reads w)))) (str ''AI'') (photo_ai_text r)])))"
    if "json_load env (json_dumps env (JArr (history @
        [history_entry (strftime (clock env (clock_reads w))) (str ''You (image)'')
            (if (case msg_caption upd of None \<Rightarrow> [] | Some c \<Rightarrow> c) = [] then str ''[Image]''
             else (case msg_caption upd of None \<Rightarrow> [] | Some c \<Rightarrow> c))])))
      = Inr (JArr (history @
        [history_entry (strftime (clock env (clock_reads w))) (str ''You (image)'')
            (if (case msg_caption upd of None \<Rightarrow> [] | Some c \<Rightarrow> c) = [] then str ''[Image]''
             else (case msg_caption upd of None \<Rightarrow> [] | Some c \<Rightarrow> c))]))"
      and "load_memory env (from_user_id upd) w = Inr (JObj kvs) \<and>
        msg_photo upd \<noteq> [] \<and>
        download_to_memory env (last (msg_photo upd)) = Inr image_bytes \<and>
        generate_with_image env image_bytes (photo_prompt env (case msg_caption upd of None \<Rightarrow> [] | Some c \<Rightarrow> c) kvs) = Inr r \<and>
        reply_text env (photo_ai_text r) = None"
    for kvs image_bytes r
    using assms that
    by (intro handle_photo_saves [where kvs = kvs and r = r and image_bytes = image_bytes])
      simp_all
  have micro: "strftime (dt\<lparr>dt_microsecond := us\<rparr>) = strftime dt"
    by (simp add: strftime_def)
  have layout: "strftime dt =
       [48 + dt_year dt div 1000, 48 + dt_year dt div 100 mod 10, 48 + dt_year dt div 10 mod 10,
        48 + dt_year dt mod 10, 45,
        48 + dt_month dt div 10, 48 + dt_month dt mod 10, 45,
        48 + dt_day dt div 10, 48 + dt_day dt mod 10, 32,
        48 + dt_hour dt div 10, 48 + dt_hour dt mod 10, 58,
        48 + dt_minute dt div 10, 48 + dt_minute dt mod 10, 58,
        48 + dt_second dt div 10, 48 + dt_second dt mod 10]"
    if "1000 \<le> dt_year dt \<and> dt_year dt < 10000 \<and> dt_month dt < 100 \<and> dt_day dt < 100 \<and>
     dt_hour dt < 100 \<and> dt_minute dt < 100 \<and> dt_second dt < 100"
    using that strftime_layout by blast
  show ?thesis
    using chat_part chat_done photo_part photo_done micro layout
    by (intro conjI impI allI) blast+
qed

text \<open>
  Claim C5 for user 42 without a history file: a text message and a photo without a
  caption, and the clock of the examples one second after ten.
\<close>

theorem history_entries_wellformed_witness:
  "existing_history demo_bot 42 empty_world [] \<and>
   json_load demo_bot (json_dumps demo_bot (JArr [entry_hi])) = Inr (JArr [entry_hi]) \<and>
   (files (snd (chat demo_bot hi_update empty_world)) = files empty_world \<or>
    (\<exists>ai_text. files (snd (chat demo_bot hi_update empty_world)) =
       (files empty_world)(user_history_path 42 \<mapsto>
          json_dumps demo_bot (JArr
            [entry_hi, history_entry (str ''2026-11-04 10:00:01'') (str ''AI'') ai_text])))) \<and>
   files (snd (chat demo_bot hi_update empty_world)) =
     (files empty_world)(user_history_path 42 \<mapsto>
        json_dumps demo_bot (JArr [entry_hi, entry_hello])) \<and>
   json_load demo_bot (json_dumps demo_bot (JArr [entry_image])) = Inr (JArr [entry_image]) \<and>
   (files (snd (handle_photo demo_bot photo_update empty_world)) = files empty_world \<or>
    (\<exists>ai_text. files (snd (handle_photo demo_bot photo_update empty_world)) =
       (files empty_world)(user_history_path 42 \<mapsto>
          json_dumps demo_bot (JArr
            [entry_image, history_entry (str ''2026-11-04 10:00:01'') (str ''AI'') ai_text])))) \<and>
   files (snd (handle_photo demo_bot photo_update empty_world)) =
     (files empty_world)(user_history_path 42 \<mapsto>
        json_dumps demo_bot (JArr [entry_image, entry_cat])) \<and>
   strftime (demo_clock 1\<lparr>dt_microsecond := 250000\<rparr>) = strftime (demo_clock 1) \<and>
   strftime (demo_clock 1) = str ''2026-11-04 10:00:01''"
proof -
  have e: "existing_history demo_bot 42 empty_world []"
    by (simp add: existing_history_def empty_world_def)
  have u: "from_user_id hi_update = 42" "from_user_id photo_update = 42"
    by (simp_all add: hi_update_def photo_update_def)
  have m: "msg_text hi_update = str ''hi''"
    by (simp add: hi_update_def)
  have cap: "(if (case msg_caption photo_update of None \<Rightarrow> [] | Some c \<Rightarrow> c) = []
              then str ''[Image]''
              else (case msg_caption photo_update of None \<Rightarrow> [] | Some c \<Rightarrow> c)) = str ''[Image]''"
    by (simp add: photo_update_def)
  have eh: "existing_history demo_bot (from_user_id hi_update) empty_world []"
    unfolding u by (rule e)
  have ep: "existing_history demo_bot (from_user_id photo_update) empty_world []"
    unfolding u by (rule e)
  note A = history_entries_wellformed [OF eh, where dt = "demo_clock 1" and us = 250000,
      unfolded u m append_Nil, unfolded demo_entries, unfolded demo_timestamps]
  note B = history_entries_wellformed [OF ep, where dt = "demo_clock 1" and us = 250000,
      unfolded u cap append_Nil, unfolded demo_entries, unfolded demo_timestamps]
  from A demo_codec(1)
  have a: "files (snd (chat demo_bot hi_update empty_world)) = files empty_world \<or>
    (\<exists>ai_text. files (snd (chat demo_bot hi_update empty_world)) =
       (files empty_world)(user_history_path 42 \<mapsto>
          json_dumps demo_bot (JArr
            [entry_hi, history_entry (str ''2026-11-04 10:00:01'') (str ''AI'') ai_text])))"
    by blast
  have q: "lower demo_bot (str ''hi'') \<noteq> str ''/stop''"
    "load_memory demo_bot 42 empty_world = Inr (JObj [])"
    "send_message demo_bot (str ''hi'' @ memory_block demo_bot [])
       = Inr (text_response (str ''Hello''))"
    "resp_parts (text_response (str ''Hello'')) = Some [Part (Some (str ''Hello''))]"
    "reply_text demo_bot (all_part_texts [Part (Some (str ''Hello''))]) = None"
    by (simp_all add: demo_bot_def ascii_lower_def load_memory_def empty_world_def
        text_response_def)
  have apt: "all_part_texts [Part (Some (str ''Hello''))] = str ''Hello''"
    by (simp add: all_part_texts_def)
  from A demo_codec(1) q
  have "files (snd (chat demo_bot hi_update empty_world)) =
     (files empty_world)(user_history_path 42 \<mapsto>
        json_dumps demo_bot (JArr [entry_hi,
          history_entry (str ''2026-11-04 10:00:01'') (str ''AI'')
            (all_part_texts [Part (Some (str ''Hello''))])]))"
    by blast
  then have a': "files (snd (chat demo_bot hi_update empty_world)) =
     (files empty_world)(user_history_path 42 \<mapsto>
        json_dumps demo_bot (JArr [entry_hi, entry_hello]))"
    unfolding apt entry_hello_def .
  from B demo_codec(3)
  have b: "files (snd (handle_photo demo_bot photo_update empty_world)) = files empty_world \<or>
    (\<exists>ai_text. files (snd (handle_photo demo_bot photo_update empty_world)) =
       (files empty_world)(user_history_path 42 \<mapsto>
          json_dumps demo_bot (JArr
            [entry_image, history_entry (str ''2026-11-04 10:00:01'') (str ''AI'') ai_text])))"
    by blast
  have p: "load_memory demo_bot 42 empty_world = Inr (JObj [])"
    "msg_photo photo_update \<noteq> []"
    "download_to_memory demo_bot (last (msg_photo photo_update)) = Inr png_magic"
    "generate_with_image demo_bot png_magic
        (photo_prompt demo_bot (case msg_caption photo_update of None \<Rightarrow> [] | Some c \<Rightarrow> c) [])
      = Inr (text_response (str ''A cat''))"
    "reply_text demo_bot (photo_ai_text (text_response (str ''A cat''))) = None"
    by (simp_all add: demo_bot_def load_memory_def empty_world_def photo_update_def)
  have pat: "photo_ai_text (text_response (str ''A cat'')) = str ''A cat''"
    by (simp add: photo_ai_text_def text_response_def)
  from B demo_codec(3) p
  have "files (snd (handle_photo demo_bot photo_update empty_world)) =
     (files empty_world)(user_history_path 42 \<mapsto>
        json_dumps demo_bot (JArr [entry_image,
          history_entry (str ''2026-11-04 10:00:01'') (str ''AI'')
            (photo_ai_text (text_response (str ''A cat'')))]))"
    by blast
  then have b': "files (snd (handle_photo demo_bot photo_update empty_world)) =
     (files empty_world)(user_history_path 42 \<mapsto>
        json_dumps demo_bot (JArr [entry_image, entry_cat]))"
    unfolding pat entry_cat_def .
  from A have us: "strftime (demo_clock 1\<lparr>dt_microsecond := 250000\<rparr>) = strftime (demo_clock 1)"
    by blast
  have range: "1000 \<le> dt_year (demo_clock 1) \<and> dt_year (demo_clock 1) < 10000 \<and>
      dt_month (demo_clock 1) < 100 \<and> dt_day (demo_clock 1) < 100 \<and>
      dt_hour (demo_clock 1) < 100 \<and> dt_minute (demo_clock 1) < 100 \<and>
      dt_second (demo_clock 1) < 100"
    by (simp add: demo_clock_def)
  from A range have l: "strftime (demo_clock 1) =
       [48 + dt_year (demo_clock 1) div 1000, 48 + dt_year (demo_clock 1) div 100 mod 10,
        48 + dt_year (demo_clock 1) div 10 mod 10, 48 + dt_year (demo_clock 1) mod 10, 45,
        48 + dt_month (demo_clock 1) div 10, 48 + dt_month (demo_clock 1) mod 10, 45,
        48 + dt_day (demo_clock 1) div 10, 48 + dt_day (demo_clock 1) mod 10, 32,
        48 + dt_hour (demo_clock 1) div 10, 48 + dt_hour (demo_clock 1) mod 10, 58,
        48 + dt_minute (demo_clock 1) div 10, 48 + dt_minute (demo_clock 1) mod 10, 58,
        48 + dt_second (demo_clock 1) div 10, 48 + dt_second (demo_clock 1) mod 10]"
    by blast
  have ts: "strftime (demo_clock 1) = str ''2026-11-04 10:00:01''"
    unfolding l by (simp add: demo_clock_def)
  show ?thesis
    using e demo_codec(1) a a' demo_codec(3) b b' us ts
    by blast
qed

end
